theory Spec2Isabelle
  imports Main "HOL-Library.AList"
begin

section \<open>JavaScript values, thrown errors and host objects\<close>

text \<open>
  The values that travel through \<^verbatim>\<open>lib/mockery.js\<close>: mock objects, module exports,
  option values and the arguments of the registration functions are arbitrary JavaScript
  values. Objects are opaque and known by their identity only.
\<close>

datatype jsval = JUndefined | JNull | JBool bool | JNum int | JStr string | JObject nat

text \<open>The coercion to a boolean that \<^verbatim>\<open>if (x)\<close>, \<^verbatim>\<open>x && y\<close> and \<^verbatim>\<open>!!x\<close> apply.\<close>

fun truthy :: "jsval \<Rightarrow> bool" where
  "truthy JUndefined = False"
| "truthy JNull = False"
| "truthy (JBool b) = b"
| "truthy (JNum n) = (n \<noteq> 0)"
| "truthy (JStr s) = (s \<noteq> [])"
| "truthy (JObject r) = True"

text \<open>The \<^verbatim>\<open>typeof\<close> operator.\<close>

fun typeof :: "jsval \<Rightarrow> string" where
  "typeof JUndefined = ''undefined''"
| "typeof JNull = ''object''"
| "typeof (JBool b) = ''boolean''"
| "typeof (JNum n) = ''number''"
| "typeof (JStr s) = ''string''"
| "typeof (JObject r) = ''object''"

text \<open>
  A thrown value. \<open>JsError msg code\<close> is \<^verbatim>\<open>new Error(msg)\<close> with its optional
  \<^verbatim>\<open>code\<close> property; the other two are the runtime's own errors.
\<close>

datatype error =
    JsError (err_message: string) (err_code: "string option")
  | TypeError string
  | RangeError string

type_synonym 'a result = "error + 'a"

text \<open>A module object of the host, as far as this library looks at it: its \<^verbatim>\<open>id\<close>
  and its identity. The requesting module of a load may be \<^verbatim>\<open>null\<close>.\<close>

datatype pmodule = Module (mod_id: string) (mod_ref: nat)

type_synonym parent = "pmodule option"

text \<open>
  An object used as a dictionary (\<^verbatim>\<open>blank()\<close>, \<^verbatim>\<open>{}\<close>, \<^verbatim>\<open>m._cache\<close>): its own
  properties in insertion order (what the functions below compute is read through
  \<open>map_of\<close> and does not depend on the order). \<open>map_of\<close> reads a property, \<open>AList.update\<close> assigns one (in
  place when the key exists, at the end otherwise), \<open>AList.delete\<close> is \<^verbatim>\<open>delete obj[k]\<close>.
\<close>

type_synonym 'v dict = "(string \<times> 'v) list"

type_synonym cache = "jsval dict"

definition has :: "'v dict \<Rightarrow> string \<Rightarrow> bool" where
  "has obj prop = (map_of obj prop \<noteq> None)"

definition blank :: "'v dict" where
  "blank = []"

text \<open>
  A function value that can sit in \<^verbatim>\<open>m._load\<close>: a loader that is not this library's
  (Node's own \<^verbatim>\<open>Module._load\<close>, or another hook), known by a number, or the
  \<^verbatim>\<open>hookedLoader\<close> closure of the instance created for a parent module.
\<close>

datatype loadfn = External nat | HookedLoader pmodule

record subst =
  subst_name :: "string option"
  subst_parent :: parent
  subst_module :: "jsval option"

record allowable =
  allow_unhook :: bool
  allow_paths :: "string list"

text \<open>
  The module-level variables of \<^verbatim>\<open>lib/mockery.js\<close> together with the two slots of the
  host's \<^verbatim>\<open>module\<close> object that the library reads and writes (\<open>m_load\<close> is
  \<^verbatim>\<open>m._load\<close>, \<open>m_cache\<close> is \<^verbatim>\<open>m._cache\<close>). \<open>console\<close> collects the lines given to
  \<^verbatim>\<open>console.warn\<close>; \<open>loaderCalls\<close> collects, in order, every invocation of an external
  loader with its arguments. A facade in \<open>mockeryCache\<close> is known by the parent module its
  closures captured.
\<close>

record world =
  registeredMocks :: "jsval dict"
  registeredSubstitutes :: "subst dict"
  registeredAllowables :: "allowable dict"
  originalLoader :: "loadfn option"
  originalCache :: "cache option"
  options :: "jsval dict"
  mockeryCache :: "pmodule dict"
  m_load :: loadfn
  m_cache :: cache
  console :: "string list"
  loaderCalls :: "(nat \<times> string \<times> parent \<times> bool) list"

text \<open>
  What the library takes from its host: the resolver \<^verbatim>\<open>m._resolveFilename\<close>, which
  either throws or gives the canonical key of a request, and the behaviour of every external
  loader, which reads and writes the live module cache and returns the module's exports or
  throws. Loads nested inside an external loader are not followed.
\<close>

record host =
  resolveFilename :: "string \<Rightarrow> parent \<Rightarrow> string result"
  externalLoad :: "nat \<Rightarrow> string \<Rightarrow> parent \<Rightarrow> bool \<Rightarrow> cache \<Rightarrow> jsval result \<times> cache"

section \<open>The module-level helpers\<close>

definition defaultOptions :: "jsval dict" where
  "defaultOptions =
     [(''useCleanCache'', JBool False),
      (''warnOnReplace'', JBool True),
      (''warnOnUnregistered'', JBool True)]"

text \<open>\<^verbatim>\<open>/\.node$/\<close>: the identifier ends in the five characters \<^verbatim>\<open>.node\<close>.\<close>

definition matchNativeModuleId :: "string \<Rightarrow> bool" where
  "matchNativeModuleId ident =
     (5 \<le> length ident \<and> drop (length ident - 5) ident = ''.node'')"

definition createModuleNotFoundError :: "string \<Rightarrow> error" where
  "createModuleNotFoundError request =
     JsError (''Cannot find module '' @ [CHR 0x27] @ request @ [CHR 0x27])
             (Some ''MODULE_NOT_FOUND'')"

text \<open>Reading a flag of the options object: an absent property is \<^verbatim>\<open>undefined\<close>.\<close>

definition optionFlag :: "jsval dict \<Rightarrow> string \<Rightarrow> bool" where
  "optionFlag opts key = (case map_of opts key of Some v \<Rightarrow> truthy v | None \<Rightarrow> False)"

section \<open>The functions of an instance\<close>

text \<open>
  \<^verbatim>\<open>Object.keys(src).forEach(function (key) { acc[key] = src[key]; })\<close>, the loop that
  \<^verbatim>\<open>getEffectiveOptions\<close> runs twice.
\<close>

definition copyKeys :: "jsval dict \<Rightarrow> jsval dict \<Rightarrow> jsval dict" where
  "copyKeys src acc =
     fold (\<lambda>key acc. case map_of src key of Some v \<Rightarrow> AList.update key v acc | None \<Rightarrow> acc)
          (map fst src) acc"

definition getEffectiveOptions :: "jsval dict option \<Rightarrow> jsval dict" where
  "getEffectiveOptions opts =
     (let acc = copyKeys defaultOptions blank
      in case opts of None \<Rightarrow> acc | Some given \<Rightarrow> copyKeys given acc)"

definition copyNativeModules :: "cache \<Rightarrow> cache \<Rightarrow> cache" where
  "copyNativeModules destination source =
     fold (\<lambda>ident dest.
             case map_of source ident of
               Some v \<Rightarrow> if matchNativeModuleId ident then AList.update ident v dest else dest
             | None \<Rightarrow> dest)
          (map fst source) destination"

text \<open>
  \<^verbatim>\<open>enable\<close>. The loader it installs is the \<^verbatim>\<open>hookedLoader\<close> closure of the instance
  whose parent module is \<open>parentModule\<close>.
\<close>

definition enable :: "pmodule \<Rightarrow> jsval dict option \<Rightarrow> world \<Rightarrow> world" where
  "enable parentModule opts w =
     (case originalLoader w of
        Some already \<Rightarrow> w
      | None \<Rightarrow>
          let w1 = w\<lparr>options := getEffectiveOptions opts\<rparr>;
              w2 = (if optionFlag (options w1) ''useCleanCache''
                    then w1\<lparr>originalCache := Some (m_cache w1),
                            m_cache := copyNativeModules [] (m_cache w1)\<rparr>
                    else w1)
          in w2\<lparr>originalLoader := Some (m_load w2), m_load := HookedLoader parentModule\<rparr>)"

text \<open>
  \<^verbatim>\<open>disable\<close>. With the clean cache in effect and no saved cache, the source copies into
  \<^verbatim>\<open>null\<close>: a \<^verbatim>\<open>TypeError\<close> as soon as the live cache holds a native module, and
  otherwise \<^verbatim>\<open>null\<close> in \<^verbatim>\<open>m._cache\<close>, which the cache of this model cannot hold. The
  model gives the error in both cases. No state reached from \<open>initialWorld\<close> through the
  functions of this file takes that branch (lemmas \<open>hookWf_run\<close> and
  \<open>disable_hookWf_returns\<close> below).
\<close>

definition disable :: "world \<Rightarrow> unit result \<times> world" where
  "disable w =
     (case originalLoader w of
        None \<Rightarrow> (Inr (), w)
      | Some orig \<Rightarrow>
          if optionFlag (options w) ''useCleanCache''
          then (case originalCache w of
                  None \<Rightarrow> (Inl (TypeError ''Cannot set properties of null''), w)
                | Some saved \<Rightarrow>
                    (Inr (), w\<lparr>m_cache := copyNativeModules saved (m_cache w),
                               originalCache := None,
                               m_load := orig,
                               originalLoader := None\<rparr>))
          else (Inr (), w\<lparr>m_load := orig, originalLoader := None\<rparr>))"

definition resetCache :: "world \<Rightarrow> world" where
  "resetCache w =
     (if optionFlag (options w) ''useCleanCache'' \<and> originalCache w \<noteq> None
      then w\<lparr>m_cache := []\<rparr> else w)"

definition warnOnReplace :: "jsval \<Rightarrow> world \<Rightarrow> world" where
  "warnOnReplace flag w = w\<lparr>options := AList.update ''warnOnReplace'' flag (options w)\<rparr>"

definition warnOnUnregistered :: "jsval \<Rightarrow> world \<Rightarrow> world" where
  "warnOnUnregistered flag w =
     w\<lparr>options := AList.update ''warnOnUnregistered'' flag (options w)\<rparr>"

definition warn :: "string \<Rightarrow> world \<Rightarrow> world" where
  "warn line w = w\<lparr>console := console w @ [line]\<rparr>"

subsection \<open>The replacement loader\<close>

text \<open>
  The body of \<^verbatim>\<open>hookedLoader\<close>. \<open>call\<close> runs a saved loader: it is the way
  \<^verbatim>\<open>originalLoader(...)\<close> is executed, given below by \<open>callLoader\<close>. The substitute
  object is the one read before the call, so the result is written to the entry under the
  same key of the registry as it is after the call.
\<close>

definition hookedLoaderBody ::
  "host \<Rightarrow> (loadfn \<Rightarrow> string \<Rightarrow> parent \<Rightarrow> bool \<Rightarrow> world \<Rightarrow> jsval result \<times> world) \<Rightarrow>
   string \<Rightarrow> parent \<Rightarrow> bool \<Rightarrow> world \<Rightarrow> jsval result \<times> world" where
  "hookedLoaderBody h call request requester isMain w =
     (case originalLoader w of
        None \<Rightarrow> (Inl (JsError ''Loader has not been hooked'' None), w)
      | Some orig \<Rightarrow>
     (case resolveFilename h request requester of
        Inl e \<Rightarrow> (Inl e, w)
      | Inr path \<Rightarrow>
     (case map_of (registeredMocks w) path of
        Some mock \<Rightarrow> (Inr mock, w)
      | None \<Rightarrow>
     (case map_of (registeredSubstitutes w) path of
        Some sub \<Rightarrow>
          (case subst_name sub of
             None \<Rightarrow> (Inl (createModuleNotFoundError request), w)
           | Some target \<Rightarrow>
               (case call orig target (subst_parent sub) isMain w of
                  (Inl e, w') \<Rightarrow> (Inl e, w')
                | (Inr loaded, w') \<Rightarrow>
                    (Inr loaded,
                     w'\<lparr>registeredSubstitutes :=
                          AList.map_entry path (\<lambda>s. s\<lparr>subst_module := Some loaded\<rparr>)
                            (registeredSubstitutes w')\<rparr>)))
      | None \<Rightarrow>
          (let w1 =
             (case map_of (registeredAllowables w) path of
                Some allow \<Rightarrow>
                  if allow_unhook allow \<and> CHR ''/'' \<in> set path \<and> path \<notin> set (allow_paths allow)
                  then w\<lparr>registeredAllowables :=
                           AList.update path (allow\<lparr>allow_paths := allow_paths allow @ [path]\<rparr>)
                             (registeredAllowables w)\<rparr>
                  else w
              | None \<Rightarrow>
                  if optionFlag (options w) ''warnOnUnregistered''
                  then warn (''WARNING: loading non-allowed module: '' @ request) w
                  else w)
           in call orig request requester isMain w1)))))"

text \<open>Running an external loader: the host acts on the live cache, and the call is logged.\<close>

definition runExternal ::
  "host \<Rightarrow> nat \<Rightarrow> string \<Rightarrow> parent \<Rightarrow> bool \<Rightarrow> world \<Rightarrow> jsval result \<times> world" where
  "runExternal h k request requester isMain w =
     (case externalLoad h k request requester isMain (m_cache w) of
        (r, c') \<Rightarrow>
          (r, w\<lparr>m_cache := c',
                loaderCalls := loaderCalls w @ [(k, request, requester, isMain)]\<rparr>))"

text \<open>
  Calling a loader function value with \<open>d\<close> stack frames left. A \<^verbatim>\<open>hookedLoader\<close> that
  finds itself as the saved loader calls itself until the stack is used up, and the engine's
  \<^verbatim>\<open>RangeError\<close> comes back through every frame.
\<close>

primrec callLoader ::
  "host \<Rightarrow> nat \<Rightarrow> loadfn \<Rightarrow> string \<Rightarrow> parent \<Rightarrow> bool \<Rightarrow> world \<Rightarrow> jsval result \<times> world" where
  "callLoader h 0 =
     (\<lambda>f request requester isMain w.
        (Inl (RangeError ''Maximum call stack size exceeded''), w))"
| "callLoader h (Suc d) =
     (\<lambda>f request requester isMain w.
        case f of
          External k \<Rightarrow> runExternal h k request requester isMain w
        | HookedLoader inst \<Rightarrow> hookedLoaderBody h (callLoader h d) request requester isMain w)"

text \<open>\<^verbatim>\<open>hookedLoader\<close> itself, with \<open>d\<close> frames left for the loader it delegates to.\<close>

definition hookedLoader ::
  "host \<Rightarrow> nat \<Rightarrow> string \<Rightarrow> parent \<Rightarrow> bool \<Rightarrow> world \<Rightarrow> jsval result \<times> world" where
  "hookedLoader h d = hookedLoaderBody h (callLoader h d)"

text \<open>A load as the host performs it: whatever function is in \<^verbatim>\<open>m._load\<close> is called.\<close>

definition moduleLoad ::
  "host \<Rightarrow> nat \<Rightarrow> string \<Rightarrow> parent \<Rightarrow> bool \<Rightarrow> world \<Rightarrow> jsval result \<times> world" where
  "moduleLoad h d request requester isMain w =
     callLoader h d (m_load w) request requester isMain w"

subsection \<open>Registration\<close>

definition registerMock ::
  "host \<Rightarrow> pmodule \<Rightarrow> string \<Rightarrow> jsval \<Rightarrow> world \<Rightarrow> unit result \<times> world" where
  "registerMock h parentModule modname mock w =
     (case resolveFilename h modname (Some parentModule) of
        Inl e \<Rightarrow> (Inl e, w)
      | Inr path \<Rightarrow>
          let w1 = (if optionFlag (options w) ''warnOnReplace'' \<and> has (registeredMocks w) path
                    then warn (''WARNING: Replacing existing mock for module: '' @ modname) w
                    else w)
          in (Inr (), w1\<lparr>registeredMocks := AList.update path mock (registeredMocks w1)\<rparr>))"

definition deregisterMock :: "host \<Rightarrow> pmodule \<Rightarrow> string \<Rightarrow> world \<Rightarrow> unit result \<times> world" where
  "deregisterMock h parentModule modname w =
     (case resolveFilename h modname (Some parentModule) of
        Inl e \<Rightarrow> (Inl e, w)
      | Inr path \<Rightarrow>
          if has (registeredMocks w) path
          then (Inr (), w\<lparr>registeredMocks := AList.delete path (registeredMocks w)\<rparr>)
          else (Inr (), w))"

text \<open>The \<^verbatim>\<open>name\<close> of a substitute entry is the argument once it has passed the type
  check: a string, or \<^verbatim>\<open>null\<close>.\<close>

fun nameOf :: "jsval \<Rightarrow> string option" where
  "nameOf (JStr s) = Some s"
| "nameOf other = None"

definition registerSubstitute ::
  "host \<Rightarrow> pmodule \<Rightarrow> string \<Rightarrow> jsval \<Rightarrow> world \<Rightarrow> unit result \<times> world" where
  "registerSubstitute h parentModule modname sub w =
     (if typeof sub \<noteq> ''string'' \<and> sub \<noteq> JNull
      then (Inl (JsError ''Substitute must be a string or null'' None), w)
      else
     (case resolveFilename h modname (Some parentModule) of
        Inl e \<Rightarrow> (Inl e, w)
      | Inr path \<Rightarrow>
          let w1 = (if optionFlag (options w) ''warnOnReplace''
                       \<and> has (registeredSubstitutes w) path
                    then warn (''WARNING: Replacing existing substitute for module: '' @ modname) w
                    else w)
          in (Inr (),
              w1\<lparr>registeredSubstitutes :=
                   AList.update path
                     \<lparr>subst_name = nameOf sub, subst_parent = Some parentModule,
                      subst_module = None\<rparr>
                     (registeredSubstitutes w1)\<rparr>)))"

definition deregisterSubstitute ::
  "host \<Rightarrow> pmodule \<Rightarrow> string \<Rightarrow> world \<Rightarrow> unit result \<times> world" where
  "deregisterSubstitute h parentModule modname w =
     (case resolveFilename h modname (Some parentModule) of
        Inl e \<Rightarrow> (Inl e, w)
      | Inr path \<Rightarrow>
          if has (registeredSubstitutes w) path
          then (Inr (),
                w\<lparr>registeredSubstitutes := AList.delete path (registeredSubstitutes w)\<rparr>)
          else (Inr (), w))"

definition registerAllowable ::
  "host \<Rightarrow> pmodule \<Rightarrow> string \<Rightarrow> jsval \<Rightarrow> world \<Rightarrow> unit result \<times> world" where
  "registerAllowable h parentModule modname unhook w =
     (case resolveFilename h modname (Some parentModule) of
        Inl e \<Rightarrow> (Inl e, w)
      | Inr path \<Rightarrow>
          if matchNativeModuleId path \<and> truthy unhook
          then (Inl (JsError ''Cannot unhook native modules'' None), w)
          else (Inr (),
                w\<lparr>registeredAllowables :=
                    AList.update path \<lparr>allow_unhook = truthy unhook, allow_paths = []\<rparr>
                      (registeredAllowables w)\<rparr>))"

text \<open>\<^verbatim>\<open>mods.forEach\<close>: the first element that throws ends the loop.\<close>

fun registerAllowables ::
  "host \<Rightarrow> pmodule \<Rightarrow> string list \<Rightarrow> jsval \<Rightarrow> world \<Rightarrow> unit result \<times> world" where
  "registerAllowables h parentModule [] unhook w = (Inr (), w)"
| "registerAllowables h parentModule (modname # mods) unhook w =
     (case registerAllowable h parentModule modname unhook w of
        (Inl e, w') \<Rightarrow> (Inl e, w')
      | (Inr u, w') \<Rightarrow> registerAllowables h parentModule mods unhook w')"

text \<open>\<^verbatim>\<open>ps.forEach(function (p) { delete m._cache[p]; })\<close>\<close>

definition evict :: "string list \<Rightarrow> world \<Rightarrow> world" where
  "evict ps w = w\<lparr>m_cache := fold AList.delete ps (m_cache w)\<rparr>"

definition deregisterAllowable ::
  "host \<Rightarrow> pmodule \<Rightarrow> string \<Rightarrow> world \<Rightarrow> unit result \<times> world" where
  "deregisterAllowable h parentModule modname w =
     (case resolveFilename h modname (Some parentModule) of
        Inl e \<Rightarrow> (Inl e, w)
      | Inr path \<Rightarrow>
          (case map_of (registeredAllowables w) path of
             None \<Rightarrow> (Inr (), w)
           | Some allow \<Rightarrow>
               let w1 = (if allow_unhook allow then evict (allow_paths allow) w else w)
               in (Inr (),
                   w1\<lparr>registeredAllowables := AList.delete path (registeredAllowables w1)\<rparr>)))"

fun deregisterAllowables ::
  "host \<Rightarrow> pmodule \<Rightarrow> string list \<Rightarrow> world \<Rightarrow> unit result \<times> world" where
  "deregisterAllowables h parentModule [] w = (Inr (), w)"
| "deregisterAllowables h parentModule (modname # mods) w =
     (case deregisterAllowable h parentModule modname w of
        (Inl e, w') \<Rightarrow> (Inl e, w')
      | (Inr u, w') \<Rightarrow> deregisterAllowables h parentModule mods w')"

definition deregisterAll :: "world \<Rightarrow> world" where
  "deregisterAll w =
     (let w1 = fold (\<lambda>modname acc.
                       case map_of (registeredAllowables w) modname of
                         Some allow \<Rightarrow>
                           if allow_unhook allow then evict (allow_paths allow) acc else acc
                       | None \<Rightarrow> acc)
                    (map fst (registeredAllowables w)) w
      in w1\<lparr>registeredMocks := blank,
            registeredSubstitutes := blank,
            registeredAllowables := blank\<rparr>)"

subsection \<open>The exported object and \<^verbatim>\<open>init\<close>\<close>

record mockery =
  api_enable :: "jsval dict option \<Rightarrow> world \<Rightarrow> world"
  api_disable :: "world \<Rightarrow> unit result \<times> world"
  api_resetCache :: "world \<Rightarrow> world"
  api_warnOnReplace :: "jsval \<Rightarrow> world \<Rightarrow> world"
  api_warnOnUnregistered :: "jsval \<Rightarrow> world \<Rightarrow> world"
  api_registerMock :: "string \<Rightarrow> jsval \<Rightarrow> world \<Rightarrow> unit result \<times> world"
  api_registerSubstitute :: "string \<Rightarrow> jsval \<Rightarrow> world \<Rightarrow> unit result \<times> world"
  api_registerAllowable :: "string \<Rightarrow> jsval \<Rightarrow> world \<Rightarrow> unit result \<times> world"
  api_registerAllowables :: "string list \<Rightarrow> jsval \<Rightarrow> world \<Rightarrow> unit result \<times> world"
  api_deregisterMock :: "string \<Rightarrow> world \<Rightarrow> unit result \<times> world"
  api_deregisterSubstitute :: "string \<Rightarrow> world \<Rightarrow> unit result \<times> world"
  api_deregisterAllowable :: "string \<Rightarrow> world \<Rightarrow> unit result \<times> world"
  api_deregisterAllowables :: "string list \<Rightarrow> world \<Rightarrow> unit result \<times> world"
  api_deregisterAll :: "world \<Rightarrow> world"

definition createInstance :: "host \<Rightarrow> pmodule \<Rightarrow> mockery" where
  "createInstance h parentModule =
     \<lparr>api_enable = enable parentModule,
      api_disable = disable,
      api_resetCache = resetCache,
      api_warnOnReplace = warnOnReplace,
      api_warnOnUnregistered = warnOnUnregistered,
      api_registerMock = registerMock h parentModule,
      api_registerSubstitute = registerSubstitute h parentModule,
      api_registerAllowable = registerAllowable h parentModule,
      api_registerAllowables = registerAllowables h parentModule,
      api_deregisterMock = deregisterMock h parentModule,
      api_deregisterSubstitute = deregisterSubstitute h parentModule,
      api_deregisterAllowable = deregisterAllowable h parentModule,
      api_deregisterAllowables = deregisterAllowables h parentModule,
      api_deregisterAll = deregisterAll\<rparr>"

text \<open>
  \<^verbatim>\<open>exports.init\<close>: the instance kept for \<^verbatim>\<open>parentModule.id\<close>, or a new one that
  captures \<open>parentModule\<close>. The result names the captured parent; the instance's functions
  are \<open>createInstance h\<close> of it.
\<close>

definition init :: "pmodule \<Rightarrow> world \<Rightarrow> pmodule \<times> world" where
  "init parentModule w =
     (case map_of (mockeryCache w) (mod_id parentModule) of
        Some kept \<Rightarrow> (kept, w)
      | None \<Rightarrow>
          (parentModule,
           w\<lparr>mockeryCache :=
                AList.update (mod_id parentModule) parentModule (mockeryCache w)\<rparr>))"

text \<open>The state right after \<^verbatim>\<open>lib/mockery.js\<close> has been evaluated, in a host whose load
  function is \<open>l\<close> and whose module cache is \<open>c\<close>.\<close>

definition initialWorld :: "loadfn \<Rightarrow> cache \<Rightarrow> world" where
  "initialWorld l c =
     \<lparr>registeredMocks = blank, registeredSubstitutes = blank, registeredAllowables = blank,
      originalLoader = None, originalCache = None, options = blank, mockeryCache = blank,
      m_load = l, m_cache = c, console = [], loaderCalls = []\<rparr>"

section \<open>Sequences of calls\<close>

text \<open>
  A test drives the library through its exported functions and through loads. A call that
  throws leaves the state it had reached, and the test goes on from there.
\<close>

datatype call =
    Enable pmodule "jsval dict option"
  | Disable
  | ResetCache
  | WarnOnReplace jsval
  | WarnOnUnregistered jsval
  | RegisterMock pmodule string jsval
  | DeregisterMock pmodule string
  | RegisterSubstitute pmodule string jsval
  | DeregisterSubstitute pmodule string
  | RegisterAllowable pmodule string jsval
  | RegisterAllowables pmodule "string list" jsval
  | DeregisterAllowable pmodule string
  | DeregisterAllowables pmodule "string list"
  | DeregisterAll
  | Load string parent bool
  | Init pmodule

fun step :: "host \<Rightarrow> nat \<Rightarrow> call \<Rightarrow> world \<Rightarrow> world" where
  "step h d (Enable inst opts) w = enable inst opts w"
| "step h d Disable w = snd (disable w)"
| "step h d ResetCache w = resetCache w"
| "step h d (WarnOnReplace flag) w = warnOnReplace flag w"
| "step h d (WarnOnUnregistered flag) w = warnOnUnregistered flag w"
| "step h d (RegisterMock inst modname mock) w = snd (registerMock h inst modname mock w)"
| "step h d (DeregisterMock inst modname) w = snd (deregisterMock h inst modname w)"
| "step h d (RegisterSubstitute inst modname sub) w =
     snd (registerSubstitute h inst modname sub w)"
| "step h d (DeregisterSubstitute inst modname) w = snd (deregisterSubstitute h inst modname w)"
| "step h d (RegisterAllowable inst modname unhook) w =
     snd (registerAllowable h inst modname unhook w)"
| "step h d (RegisterAllowables inst mods unhook) w =
     snd (registerAllowables h inst mods unhook w)"
| "step h d (DeregisterAllowable inst modname) w = snd (deregisterAllowable h inst modname w)"
| "step h d (DeregisterAllowables inst mods) w = snd (deregisterAllowables h inst mods w)"
| "step h d DeregisterAll w = deregisterAll w"
| "step h d (Load request requester isMain) w = snd (moduleLoad h d request requester isMain w)"
| "step h d (Init parentModule) w = snd (init parentModule w)"

definition run :: "host \<Rightarrow> nat \<Rightarrow> call list \<Rightarrow> world \<Rightarrow> world" where
  "run h d calls w = fold (step h d) calls w"

text \<open>The calls that install or remove the hook, and the calls that write the options.\<close>

fun hookCall :: "call \<Rightarrow> bool" where
  "hookCall (Enable inst opts) = True"
| "hookCall Disable = True"
| "hookCall other = False"

fun optionCall :: "call \<Rightarrow> bool" where
  "optionCall (Enable inst opts) = True"
| "optionCall (WarnOnReplace flag) = True"
| "optionCall (WarnOnUnregistered flag) = True"
| "optionCall other = False"

section \<open>A small host and some states, for evaluating the functions\<close>

text \<open>
  The resolver of \<open>demoHost\<close> finds every request but \<^verbatim>\<open>missing\<close> under \<^verbatim>\<open>/app/\<close>.
  Its loaders behave like Node's: a module already in the cache is returned, another one is
  created, cached and returned.
\<close>

definition demoHost :: host where
  "demoHost =
     \<lparr>resolveFilename =
        (\<lambda>request requester.
           if request = ''missing'' then Inl (createModuleNotFoundError request)
           else Inr (''/app/'' @ request)),
      externalLoad =
        (\<lambda>k request requester isMain c.
           case map_of c (''/app/'' @ request) of
             Some v \<Rightarrow> (Inr v, c)
           | None \<Rightarrow>
               (Inr (JObject (100 + length c)),
                c @ [(''/app/'' @ request, JObject (100 + length c))]))\<rparr>"

definition testModule :: pmodule where
  "testModule = Module ''/app/test.js'' 1"

definition otherModule :: pmodule where
  "otherModule = Module ''/app/other.js'' 2"

definition demoCache :: cache where
  "demoCache = [(''/app/test.js'', JObject 0), (''/app/addon.node'', JObject 1)]"

definition freshWorld :: world where
  "freshWorld = initialWorld (External 0) demoCache"

text \<open>Hooked, with a mock for \<^verbatim>\<open>widgets\<close>, a substitute \<^verbatim>\<open>real\<close> \<open>\<rightarrow>\<close> \<^verbatim>\<open>fake\<close>, the
  substitute \<^verbatim>\<open>null\<close> for \<^verbatim>\<open>gone\<close>, and two allowables.\<close>

definition hookedWorld :: world where
  "hookedWorld =
     \<lparr>registeredMocks = [(''/app/widgets'', JObject 7)],
      registeredSubstitutes =
        [(''/app/real'', \<lparr>subst_name = Some ''fake'', subst_parent = Some testModule,
                         subst_module = None\<rparr>),
         (''/app/gone'', \<lparr>subst_name = None, subst_parent = Some testModule,
                         subst_module = None\<rparr>)],
      registeredAllowables =
        [(''/app/util'', \<lparr>allow_unhook = True, allow_paths = [''/app/util'']\<rparr>),
         (''/app/plain'', \<lparr>allow_unhook = False, allow_paths = []\<rparr>)],
      originalLoader = Some (External 0),
      originalCache = None,
      options = getEffectiveOptions None,
      mockeryCache = [(''/app/test.js'', testModule)],
      m_load = HookedLoader testModule,
      m_cache = [(''/app/test.js'', JObject 0), (''/app/util'', JObject 5)],
      console = [],
      loaderCalls = []\<rparr>"

text \<open>Calls made between an \<^verbatim>\<open>enable\<close> and a \<^verbatim>\<open>disable\<close>.\<close>

definition roundTripCalls :: "call list" where
  "roundTripCalls =
     [RegisterAllowable testModule ''util'' (JBool True),
      Load ''util'' (Some testModule) False,
      Load ''new.node'' (Some testModule) False,
      RegisterMock testModule ''widgets'' (JObject 7),
      Load ''widgets'' (Some testModule) False]"

text \<open>Calls made before any \<^verbatim>\<open>enable\<close>.\<close>

definition preEnableCalls :: "call list" where
  "preEnableCalls =
     [RegisterMock testModule ''widgets'' (JObject 7),
      RegisterSubstitute testModule ''real'' (JStr ''fake''),
      Load ''util'' (Some testModule) False,
      Disable]"

section \<open>What a call leaves alone\<close>

text \<open>
  \<open>untouched w w'\<close>: the hook state and the options of \<open>w'\<close> are those of \<open>w\<close>.
  \<open>hookKept\<close> asks the same of the hook state and of the clean-cache flag alone.
  \<open>hookWf\<close>: a hooked state with the clean cache in effect has a saved cache.
\<close>

definition untouched :: "world \<Rightarrow> world \<Rightarrow> bool" where
  "untouched w w' =
     (originalLoader w' = originalLoader w \<and> originalCache w' = originalCache w
      \<and> m_load w' = m_load w \<and> options w' = options w)"

definition hookKept :: "world \<Rightarrow> world \<Rightarrow> bool" where
  "hookKept w w' =
     (originalLoader w' = originalLoader w \<and> originalCache w' = originalCache w
      \<and> m_load w' = m_load w
      \<and> optionFlag (options w') ''useCleanCache'' = optionFlag (options w) ''useCleanCache'')"

text \<open>\<open>quiet\<close>: nothing has been written to the options and the loader is not hooked.\<close>

definition quiet :: "world \<Rightarrow> bool" where
  "quiet w = (options w = [] \<and> originalLoader w = None)"

definition hookWf :: "world \<Rightarrow> bool" where
  "hookWf w =
     (originalLoader w = None \<or> originalCache w \<noteq> None
      \<or> \<not> optionFlag (options w) ''useCleanCache'')"

section \<open>Properties of the helpers\<close>

lemma has_iff: "has obj k \<longleftrightarrow> map_of obj k \<noteq> None"
  by (simp add: has_def)

lemma map_of_fold_delete:
  "map_of (fold AList.delete ps c) k = (if k \<in> set ps then None else map_of c k)"
  by (induction ps arbitrary: c) (simp_all add: delete_conv')

lemma m_cache_evict:
  "map_of (m_cache (evict ps w)) k = (if k \<in> set ps then None else map_of (m_cache w) k)"
  by (simp add: evict_def map_of_fold_delete)

lemma copyNative_fold:
  "map_of (fold (\<lambda>ident dest.
                   case map_of source ident of
                     Some v \<Rightarrow> if matchNativeModuleId ident then AList.update ident v dest
                               else dest
                   | None \<Rightarrow> dest) ks dest) k =
   (if matchNativeModuleId k \<and> k \<in> set ks \<and> map_of source k \<noteq> None
    then map_of source k else map_of dest k)"
proof (induction ks arbitrary: dest)
  case Nil
  show ?case by simp
next
  case (Cons a ks)
  show ?case
  proof (cases "map_of source a")
    case None
    then show ?thesis using Cons.IH [of dest] by auto
  next
    case (Some v)
    show ?thesis
    proof (cases "matchNativeModuleId a")
      case True
      then show ?thesis
        using Some Cons.IH [of "AList.update a v dest"] by (auto simp: update_conv')
    next
      case False
      then show ?thesis using Some Cons.IH [of dest] by auto
    qed
  qed
qed

lemma map_of_copyNativeModules:
  "map_of (copyNativeModules destination source) k =
   (if matchNativeModuleId k \<and> map_of source k \<noteq> None
    then map_of source k else map_of destination k)"
proof -
  have "k \<in> set (map fst source) \<longleftrightarrow> map_of source k \<noteq> None"
    by (simp add: map_of_eq_None_iff)
  then show ?thesis
    unfolding copyNativeModules_def copyNative_fold by auto
qed

section \<open>Frame properties\<close>

lemma untouched_refl: "untouched w w"
  by (simp add: untouched_def)

lemma untouched_trans: "untouched w v \<Longrightarrow> untouched v u \<Longrightarrow> untouched w u"
  by (simp add: untouched_def)

lemma untouched_evict: "untouched w (evict ps w)"
  by (simp add: untouched_def evict_def)

lemma untouched_warn: "untouched w (warn line w)"
  by (simp add: untouched_def warn_def)

lemma untouched_runExternal:
  "untouched w (snd (runExternal h k request requester isMain w))"
  by (simp add: untouched_def runExternal_def split: prod.splits)

lemma untouched_hookedLoaderBody:
  assumes call: "\<And>f rq rr im v. untouched v (snd (call f rq rr im v))"
  shows "untouched w (snd (hookedLoaderBody h call request requester isMain w))"
proof (cases "originalLoader w")
  case None
  then show ?thesis by (simp add: hookedLoaderBody_def untouched_refl)
next
  case (Some orig)
  note hooked = this
  show ?thesis
  proof (cases "resolveFilename h request requester")
    case (Inl e)
    with hooked show ?thesis by (simp add: hookedLoaderBody_def untouched_refl)
  next
    case (Inr path)
    note res = this
    show ?thesis
    proof (cases "map_of (registeredMocks w) path")
      case (Some mock)
      with hooked res show ?thesis by (simp add: hookedLoaderBody_def untouched_refl)
    next
      case None
      note nomock = this
      show ?thesis
      proof (cases "map_of (registeredSubstitutes w) path")
        case (Some sub)
        note entry = this
        show ?thesis
        proof (cases "subst_name sub")
          case None
          with hooked res nomock entry show ?thesis
            by (simp add: hookedLoaderBody_def untouched_refl)
        next
          case (Some target)
          from call [of w orig target "subst_parent sub" isMain]
          show ?thesis
            using hooked res nomock entry Some
            by (auto simp: hookedLoaderBody_def untouched_def split: prod.splits sum.splits)
        qed
      next
        case None
        note noentry = this
        define w1 where "w1 =
             (case map_of (registeredAllowables w) path of
                Some allow \<Rightarrow>
                  if allow_unhook allow \<and> CHR ''/'' \<in> set path \<and> path \<notin> set (allow_paths allow)
                  then w\<lparr>registeredAllowables :=
                           AList.update path (allow\<lparr>allow_paths := allow_paths allow @ [path]\<rparr>)
                             (registeredAllowables w)\<rparr>
                  else w
              | None \<Rightarrow>
                  if optionFlag (options w) ''warnOnUnregistered''
                  then warn (''WARNING: loading non-allowed module: '' @ request) w
                  else w)"
        have a: "untouched w w1"
          by (simp add: w1_def untouched_def warn_def split: option.splits)
        have b: "hookedLoaderBody h call request requester isMain w
                   = call orig request requester isMain w1"
          using hooked res nomock noentry
          by (simp add: hookedLoaderBody_def w1_def Let_def)
        from call [of w1 orig request requester isMain] a show ?thesis
          unfolding b by (rule untouched_trans [rotated])
      qed
    qed
  qed
qed

lemma untouched_callLoader:
  "untouched w (snd (callLoader h d f request requester isMain w))"
proof (induction d arbitrary: f request requester isMain w)
  case 0
  show ?case by (simp add: untouched_refl)
next
  case (Suc d)
  show ?case
  proof (cases f)
    case (External k)
    then show ?thesis by (simp add: untouched_runExternal)
  next
    case (HookedLoader inst)
    then show ?thesis
      using untouched_hookedLoaderBody [of "callLoader h d", OF Suc.IH] by simp
  qed
qed

lemma untouched_registerMock: "untouched w (snd (registerMock h inst modname mock w))"
  by (simp add: registerMock_def untouched_def warn_def Let_def split: sum.splits)

lemma untouched_deregisterMock: "untouched w (snd (deregisterMock h inst modname w))"
  by (simp add: deregisterMock_def untouched_def split: sum.splits)

lemma untouched_registerSubstitute:
  "untouched w (snd (registerSubstitute h inst modname sub w))"
  by (simp add: registerSubstitute_def untouched_def warn_def Let_def split: sum.splits)

lemma untouched_deregisterSubstitute:
  "untouched w (snd (deregisterSubstitute h inst modname w))"
  by (simp add: deregisterSubstitute_def untouched_def split: sum.splits)

lemma untouched_registerAllowable:
  "untouched w (snd (registerAllowable h inst modname unhook w))"
  by (simp add: registerAllowable_def untouched_def split: sum.splits)

lemma untouched_registerAllowables:
  "untouched w (snd (registerAllowables h inst mods unhook w))"
proof (induction mods arbitrary: w)
  case Nil
  show ?case by (simp add: untouched_refl)
next
  case (Cons modname mods)
  obtain r w' where one: "registerAllowable h inst modname unhook w = (r, w')"
    by (cases "registerAllowable h inst modname unhook w")
  with untouched_registerAllowable [of w h inst modname unhook]
  have a: "untouched w w'" by simp
  show ?case
  proof (cases r)
    case (Inl e)
    with one a show ?thesis by simp
  next
    case (Inr u)
    with one a Cons.IH [of w'] show ?thesis
      by (simp add: untouched_trans)
  qed
qed

lemma untouched_deregisterAllowable:
  "untouched w (snd (deregisterAllowable h inst modname w))"
  by (simp add: deregisterAllowable_def untouched_def evict_def Let_def
           split: sum.splits option.splits)

lemma untouched_deregisterAllowables:
  "untouched w (snd (deregisterAllowables h inst mods w))"
proof (induction mods arbitrary: w)
  case Nil
  show ?case by (simp add: untouched_refl)
next
  case (Cons modname mods)
  obtain r w' where one: "deregisterAllowable h inst modname w = (r, w')"
    by (cases "deregisterAllowable h inst modname w")
  with untouched_deregisterAllowable [of w h inst modname]
  have a: "untouched w w'" by simp
  show ?case
  proof (cases r)
    case (Inl e)
    with one a show ?thesis by simp
  next
    case (Inr u)
    with one a Cons.IH [of w'] show ?thesis
      by (simp add: untouched_trans)
  qed
qed

lemma untouched_evict_fold:
  "untouched w (fold (\<lambda>modname acc.
                       case map_of table modname of
                         Some allow \<Rightarrow>
                           if allow_unhook allow then evict (allow_paths allow) acc else acc
                       | None \<Rightarrow> acc) ks w)"
proof (induction ks arbitrary: w)
  case Nil
  show ?case by (simp add: untouched_refl)
next
  case (Cons a ks)
  have "untouched w (case map_of table a of
                         Some allow \<Rightarrow>
                           if allow_unhook allow then evict (allow_paths allow) w else w
                       | None \<Rightarrow> w)"
    by (simp add: untouched_refl untouched_evict split: option.splits)
  then show ?case
    using Cons.IH by (simp add: untouched_trans)
qed

lemma untouched_deregisterAll: "untouched w (deregisterAll w)"
proof -
  have "untouched w (fold (\<lambda>modname acc.
                       case map_of (registeredAllowables w) modname of
                         Some allow \<Rightarrow>
                           if allow_unhook allow then evict (allow_paths allow) acc else acc
                       | None \<Rightarrow> acc) (map fst (registeredAllowables w)) w)"
    by (rule untouched_evict_fold)
  then show ?thesis
    by (simp add: deregisterAll_def Let_def untouched_def)
qed

lemma untouched_init: "untouched w (snd (init parentModule w))"
  by (simp add: init_def untouched_def split: option.splits)

lemma untouched_resetCache: "untouched w (resetCache w)"
  by (simp add: resetCache_def untouched_def)

lemma step_untouched:
  "\<not> hookCall c \<Longrightarrow> \<not> optionCall c \<Longrightarrow> untouched w (step h d c w)"
  by (cases c)
     (simp_all add: untouched_resetCache untouched_registerMock untouched_deregisterMock
        untouched_registerSubstitute untouched_deregisterSubstitute
        untouched_registerAllowable untouched_registerAllowables
        untouched_deregisterAllowable untouched_deregisterAllowables
        untouched_deregisterAll untouched_init moduleLoad_def untouched_callLoader)

lemma hookKept_refl: "hookKept w w"
  by (simp add: hookKept_def)

lemma hookKept_trans: "hookKept w v \<Longrightarrow> hookKept v u \<Longrightarrow> hookKept w u"
  by (simp add: hookKept_def)

lemma untouched_hookKept: "untouched w w' \<Longrightarrow> hookKept w w'"
  by (simp add: untouched_def hookKept_def)

lemma step_hookKept: "\<not> hookCall c \<Longrightarrow> hookKept w (step h d c w)"
proof (cases "optionCall c")
  case False
  assume "\<not> hookCall c"
  with False show ?thesis
    by (simp add: step_untouched untouched_hookKept)
next
  case True
  assume "\<not> hookCall c"
  with True show ?thesis
    by (cases c)
       (simp_all add: hookKept_def warnOnReplace_def warnOnUnregistered_def optionFlag_def
          update_conv')
qed

lemma run_hookKept: "\<forall>c \<in> set calls. \<not> hookCall c \<Longrightarrow> hookKept w (run h d calls w)"
proof (induction calls arbitrary: w)
  case Nil
  show ?case by (simp add: run_def hookKept_refl)
next
  case (Cons c calls)
  from Cons.prems have "hookKept w (step h d c w)"
    by (simp add: step_hookKept)
  moreover from Cons.prems Cons.IH [of "step h d c w"]
  have "hookKept (step h d c w) (run h d (c # calls) w)"
    by (simp add: run_def)
  ultimately show ?case by (rule hookKept_trans)
qed

lemma copyNative_fold_same:
  assumes "\<forall>k v. matchNativeModuleId k \<and> map_of source k = Some v \<longrightarrow> map_of dest k = Some v"
  shows "fold (\<lambda>ident dest.
                   case map_of source ident of
                     Some v \<Rightarrow> if matchNativeModuleId ident then AList.update ident v dest
                               else dest
                   | None \<Rightarrow> dest) ks dest = dest"
  using assms by (induction ks) (auto simp: update_triv split: option.splits)

lemma copyNativeModules_same:
  assumes "\<forall>k v. matchNativeModuleId k \<and> map_of source k = Some v \<longrightarrow> map_of dest k = Some v"
  shows "copyNativeModules dest source = dest"
  unfolding copyNativeModules_def using assms by (rule copyNative_fold_same)

lemma enable_unhooked:
  assumes "originalLoader w = None"
  shows "originalLoader (enable inst opts w) = Some (m_load w)"
    and "options (enable inst opts w) = getEffectiveOptions opts"
    and "optionFlag (getEffectiveOptions opts) ''useCleanCache'' \<Longrightarrow>
           originalCache (enable inst opts w) = Some (m_cache w)"
    and "optionFlag (getEffectiveOptions opts) ''useCleanCache'' \<Longrightarrow>
           m_cache (enable inst opts w) = copyNativeModules [] (m_cache w)"
    and "m_load (enable inst opts w) = HookedLoader inst"
  using assms by (simp_all add: enable_def Let_def)

lemma disable_clean:
  assumes "originalLoader w = Some orig"
    and "optionFlag (options w) ''useCleanCache''"
    and "originalCache w = Some saved"
  shows "disable w = (Inr (), w\<lparr>m_cache := copyNativeModules saved (m_cache w),
                               originalCache := None,
                               m_load := orig,
                               originalLoader := None\<rparr>)"
  using assms by (simp add: disable_def)

lemma hookWf_initial: "hookWf (initialWorld l c)"
  by (simp add: hookWf_def initialWorld_def)

lemma hookWf_enable: "hookWf w \<Longrightarrow> hookWf (enable inst opts w)"
  by (cases "originalLoader w") (auto simp: hookWf_def enable_def Let_def)

lemma hookWf_disable: "hookWf w \<Longrightarrow> hookWf (snd (disable w))"
  by (cases "originalLoader w") (auto simp: hookWf_def disable_def split: option.splits)

lemma hookWf_step: "hookWf w \<Longrightarrow> hookWf (step h d c w)"
proof (cases "hookCall c")
  case True
  assume "hookWf w"
  with True show ?thesis
    by (cases c) (simp_all add: hookWf_enable hookWf_disable)
next
  case False
  assume wf: "hookWf w"
  from False have "hookKept w (step h d c w)"
    by (rule step_hookKept)
  with wf show ?thesis
    by (simp add: hookWf_def hookKept_def)
qed

lemma hookWf_run: "hookWf w \<Longrightarrow> hookWf (run h d calls w)"
  unfolding run_def by (induction calls arbitrary: w) (simp_all add: hookWf_step)

lemma disable_hookWf_returns: "hookWf w \<Longrightarrow> fst (disable w) = Inr ()"
  by (auto simp: hookWf_def disable_def split: option.splits)

lemma getEffectiveOptions_None: "getEffectiveOptions None = defaultOptions"
  by (simp add: getEffectiveOptions_def copyKeys_def defaultOptions_def blank_def)

lemma copyKeys_fold:
  "map_of (fold (\<lambda>key acc. case map_of src key of
                               Some v \<Rightarrow> AList.update key v acc | None \<Rightarrow> acc) ks acc) k =
   (if k \<in> set ks \<and> map_of src k \<noteq> None then map_of src k else map_of acc k)"
proof (induction ks arbitrary: acc)
  case Nil
  show ?case by simp
next
  case (Cons a ks)
  show ?case
  proof (cases "map_of src a")
    case None
    then show ?thesis using Cons.IH [of acc] by auto
  next
    case (Some v)
    then show ?thesis
      using Cons.IH [of "AList.update a v acc"] by (auto simp: update_conv')
  qed
qed

lemma map_of_copyKeys:
  "map_of (copyKeys src acc) k =
   (case map_of src k of Some v \<Rightarrow> Some v | None \<Rightarrow> map_of acc k)"
proof -
  have "k \<in> set (map fst src) \<longleftrightarrow> map_of src k \<noteq> None"
    by (simp add: map_of_eq_None_iff)
  then show ?thesis
    unfolding copyKeys_def copyKeys_fold by (auto split: option.splits)
qed

lemma map_of_getEffectiveOptions:
  "map_of (getEffectiveOptions opts) k =
   (case opts of
      None \<Rightarrow> map_of defaultOptions k
    | Some given \<Rightarrow>
        (case map_of given k of Some v \<Rightarrow> Some v | None \<Rightarrow> map_of defaultOptions k))"
  by (cases opts)
     (simp_all add: getEffectiveOptions_def Let_def map_of_copyKeys blank_def
        split: option.splits)

lemma init_registry:
  "init parentModule w = (kept, w') \<Longrightarrow>
     registeredMocks w' = registeredMocks w \<and> originalLoader w' = originalLoader w
     \<and> m_load w' = m_load w \<and> options w' = options w"
  by (auto simp: init_def split: option.splits)

lemma init_memo: "init parentModule w = (kept, w') \<Longrightarrow> init parentModule w' = (kept, w')"
  by (auto simp: init_def update_conv' split: option.splits)

lemma quiet_step: "quiet w \<Longrightarrow> \<not> optionCall c \<Longrightarrow> quiet (step h d c w)"
proof (cases "hookCall c")
  case True
  assume "quiet w" "\<not> optionCall c"
  with True show ?thesis
    by (cases c) (simp_all add: quiet_def disable_def)
next
  case False
  assume q: "quiet w" and "\<not> optionCall c"
  with False have "untouched w (step h d c w)"
    by (simp add: step_untouched)
  with q show ?thesis
    by (simp add: quiet_def untouched_def)
qed

lemma quiet_run: "quiet w \<Longrightarrow> \<forall>c \<in> set calls. \<not> optionCall c \<Longrightarrow> quiet (run h d calls w)"
proof (induction calls arbitrary: w)
  case Nil
  then show ?case by (simp add: run_def)
next
  case (Cons c calls)
  from Cons.prems have "quiet (step h d c w)"
    by (simp add: quiet_step)
  with Cons.prems Cons.IH [of "step h d c w"] show ?case
    by (simp add: run_def)
qed

section \<open>Loads through the replacement loader\<close>

text \<open>
  Claim C1. While the loader is hooked, a request whose resolved key has a registered mock
  \<open>V\<close> gets exactly \<open>V\<close>, and the state is the one before the load: whatever stands for
  the original loader (\<open>call\<close>) is never run, and the log of external loader calls is as it
  was. The same holds for a load through \<^verbatim>\<open>m._load\<close> when it holds the replacement.
\<close>

theorem mock_short_circuits:
  assumes "originalLoader w \<noteq> None"
    and "resolveFilename h request requester = Inr path"
    and "map_of (registeredMocks w) path = Some V"
  shows "hookedLoaderBody h call request requester isMain w = (Inr V, w)
       \<and> hookedLoader h d request requester isMain w = (Inr V, w)
       \<and> loaderCalls (snd (hookedLoader h d request requester isMain w)) = loaderCalls w
       \<and> (m_load w = HookedLoader inst \<longrightarrow>
            moduleLoad h (Suc d) request requester isMain w = (Inr V, w))"
  using assms
  by (auto simp: hookedLoaderBody_def hookedLoader_def moduleLoad_def)

theorem mock_short_circuits_witness:
  "originalLoader hookedWorld \<noteq> None
   \<and> resolveFilename demoHost ''widgets'' (Some otherModule) = Inr ''/app/widgets''
   \<and> map_of (registeredMocks hookedWorld) ''/app/widgets'' = Some (JObject 7)
   \<and> hookedLoader demoHost 1 ''widgets'' (Some otherModule) False hookedWorld
       = (Inr (JObject 7), hookedWorld)
   \<and> moduleLoad demoHost 2 ''widgets'' (Some otherModule) False hookedWorld
       = (Inr (JObject 7), hookedWorld)"
proof -
  have a: "originalLoader hookedWorld \<noteq> None"
    by (simp add: hookedWorld_def)
  have b: "resolveFilename demoHost ''widgets'' (Some otherModule) = Inr ''/app/widgets''"
    by (simp add: demoHost_def)
  have c: "map_of (registeredMocks hookedWorld) ''/app/widgets'' = Some (JObject 7)"
    by (simp add: hookedWorld_def)
  have e: "m_load hookedWorld = HookedLoader testModule"
    by (simp add: hookedWorld_def)
  from mock_short_circuits [OF a b c, of undefined False 1 testModule] a b c e
  show ?thesis by (simp add: numeral_2_eq_2)
qed

text \<open>
  The substitute branch. The loader that \<^verbatim>\<open>originalLoader\<close> holds is called with the
  substitute's name and parent; a result is written to the entry's \<^verbatim>\<open>module\<close>
  property, which only the \<^verbatim>\<open>return\<close> on the next line reads.
\<close>

lemma hookedLoaderBody_substitute:
  assumes "originalLoader w = Some orig"
    and "resolveFilename h request requester = Inr path"
    and "map_of (registeredMocks w) path = None"
    and "map_of (registeredSubstitutes w) path = Some sub"
    and "subst_name sub = Some target"
  shows "hookedLoaderBody h call request requester isMain w =
           (case call orig target (subst_parent sub) isMain w of
              (Inl e, w') \<Rightarrow> (Inl e, w')
            | (Inr loaded, w') \<Rightarrow>
                (Inr loaded,
                 w'\<lparr>registeredSubstitutes :=
                      AList.map_entry path (\<lambda>s. s\<lparr>subst_module := Some loaded\<rparr>)
                        (registeredSubstitutes w')\<rparr>))"
  using assms by (simp add: hookedLoaderBody_def)

lemma substitute_external_load:
  assumes "originalLoader w = Some (External k)"
    and "resolveFilename h request requester = Inr path"
    and "map_of (registeredMocks w) path = None"
    and "map_of (registeredSubstitutes w) path = Some sub"
    and "subst_name sub = Some target"
  shows "hookedLoader h (Suc d) request requester isMain w =
           (fst (externalLoad h k target (subst_parent sub) isMain (m_cache w)),
            w\<lparr>m_cache := snd (externalLoad h k target (subst_parent sub) isMain (m_cache w)),
              loaderCalls := loaderCalls w @ [(k, target, subst_parent sub, isMain)],
              registeredSubstitutes :=
                (case fst (externalLoad h k target (subst_parent sub) isMain (m_cache w)) of
                   Inl e \<Rightarrow> registeredSubstitutes w
                 | Inr loaded \<Rightarrow>
                     AList.map_entry path (\<lambda>s. s\<lparr>subst_module := Some loaded\<rparr>)
                       (registeredSubstitutes w))\<rparr>)"
  unfolding hookedLoader_def hookedLoaderBody_substitute [OF assms]
  by (simp add: runExternal_def split: prod.splits sum.splits)

text \<open>
  Claim C2, as the code has it. While the loader is hooked on an external loader \<open>k\<close>, a
  request whose resolved key has no mock and has a substitute entry with the target \<open>T\<close>
  runs loader \<open>k\<close> on \<open>T\<close>, with the parent module kept in the entry and the caller's
  \<^verbatim>\<open>isMain\<close>: the load returns what that loader returns, the live cache is the one it
  leaves, and a returned module is stored in the entry. A second load of the same request
  does the same again: loader \<open>k\<close> is run on \<open>T\<close> once more, on the cache left by the
  first load, and its result is the result of the second load. The module stored by the
  first load is not consulted.
\<close>

theorem substitute_delegates_every_load:
  assumes hooked: "originalLoader w = Some (External k)"
    and res: "resolveFilename h request requester = Inr path"
    and nomock: "map_of (registeredMocks w) path = None"
    and entry: "map_of (registeredSubstitutes w) path = Some sub"
    and target: "subst_name sub = Some target"
    and first: "hookedLoader h (Suc d) request requester isMain w = (r1, w1)"
    and second: "hookedLoader h (Suc d) request requester isMain w1 = (r2, w2)"
  shows "(r1, m_cache w1) = externalLoad h k target (subst_parent sub) isMain (m_cache w)
       \<and> loaderCalls w1 = loaderCalls w @ [(k, target, subst_parent sub, isMain)]
       \<and> (\<forall>loaded. r1 = Inr loaded \<longrightarrow>
             map_of (registeredSubstitutes w1) path = Some (sub\<lparr>subst_module := Some loaded\<rparr>))
       \<and> (r2, m_cache w2) = externalLoad h k target (subst_parent sub) isMain (m_cache w1)
       \<and> loaderCalls w2 = loaderCalls w @ [(k, target, subst_parent sub, isMain),
                                           (k, target, subst_parent sub, isMain)]"
proof -
  let ?x = "externalLoad h k target (subst_parent sub) isMain (m_cache w)"
  note one = substitute_external_load [OF hooked res nomock entry target, of d isMain]
  from one first have r1: "r1 = fst ?x"
    by simp
  from one first have w1: "w1 = w\<lparr>m_cache := snd ?x,
              loaderCalls := loaderCalls w @ [(k, target, subst_parent sub, isMain)],
              registeredSubstitutes :=
                (case fst ?x of
                   Inl e \<Rightarrow> registeredSubstitutes w
                 | Inr loaded \<Rightarrow>
                     AList.map_entry path (\<lambda>s. s\<lparr>subst_module := Some loaded\<rparr>)
                       (registeredSubstitutes w))\<rparr>"
    by simp
  have c1: "m_cache w1 = snd ?x"
    by (simp add: w1)
  have l1: "loaderCalls w1 = loaderCalls w @ [(k, target, subst_parent sub, isMain)]"
    by (simp add: w1)
  have hooked1: "originalLoader w1 = Some (External k)"
    by (simp add: w1 hooked)
  have nomock1: "map_of (registeredMocks w1) path = None"
    by (simp add: w1 nomock)
  define sub1 where
    "sub1 = (case fst ?x of Inl e \<Rightarrow> sub | Inr loaded \<Rightarrow> sub\<lparr>subst_module := Some loaded\<rparr>)"
  have entry1: "map_of (registeredSubstitutes w1) path = Some sub1"
    by (cases "fst ?x") (simp_all add: w1 sub1_def entry map_of_map_entry)
  have target1: "subst_name sub1 = Some target"
    by (cases "fst ?x") (simp_all add: sub1_def target)
  have parent1: "subst_parent sub1 = subst_parent sub"
    by (cases "fst ?x") (simp_all add: sub1_def)
  have stored: "\<forall>loaded. r1 = Inr loaded \<longrightarrow> sub1 = sub\<lparr>subst_module := Some loaded\<rparr>"
    by (simp add: sub1_def r1)
  note two = substitute_external_load [OF hooked1 res nomock1 entry1 target1, of d isMain]
  from two second have r2: "r2 = fst (externalLoad h k target (subst_parent sub) isMain (m_cache w1))"
    by (simp add: parent1)
  from two second
  have c2: "m_cache w2 = snd (externalLoad h k target (subst_parent sub) isMain (m_cache w1))"
    by (auto simp: parent1)
  from two second
  have l2: "loaderCalls w2 = loaderCalls w1 @ [(k, target, subst_parent sub, isMain)]"
    by (auto simp: parent1)
  from r1 c1 l1 r2 c2 l2 entry1 stored show ?thesis
    by (simp add: prod_eq_iff)
qed

theorem substitute_delegates_every_load_witness:
  "originalLoader hookedWorld = Some (External 0)
   \<and> resolveFilename demoHost ''real'' None = Inr ''/app/real''
   \<and> map_of (registeredMocks hookedWorld) ''/app/real'' = None
   \<and> map_of (registeredSubstitutes hookedWorld) ''/app/real''
       = Some \<lparr>subst_name = Some ''fake'', subst_parent = Some testModule,
               subst_module = None\<rparr>
   \<and> loaderCalls (snd (hookedLoader demoHost (Suc 0) ''real'' None False hookedWorld))
       = [(0, ''fake'', Some testModule, False)]
   \<and> loaderCalls
       (snd (hookedLoader demoHost (Suc 0) ''real'' None False
               (snd (hookedLoader demoHost (Suc 0) ''real'' None False hookedWorld))))
       = [(0, ''fake'', Some testModule, False), (0, ''fake'', Some testModule, False)]"
proof -
  let ?w1 = "snd (hookedLoader demoHost (Suc 0) ''real'' None False hookedWorld)"
  have a: "originalLoader hookedWorld = Some (External 0)"
    by (simp add: hookedWorld_def)
  have b: "resolveFilename demoHost ''real'' None = Inr ''/app/real''"
    by (simp add: demoHost_def)
  have c: "map_of (registeredMocks hookedWorld) ''/app/real'' = None"
    by (simp add: hookedWorld_def)
  have e: "map_of (registeredSubstitutes hookedWorld) ''/app/real''
       = Some \<lparr>subst_name = Some ''fake'', subst_parent = Some testModule,
               subst_module = None\<rparr>"
    by (simp add: hookedWorld_def)
  have f: "subst_name \<lparr>subst_name = Some ''fake'', subst_parent = Some testModule,
               subst_module = None\<rparr> = Some ''fake''"
    by simp
  have g: "hookedLoader demoHost (Suc 0) ''real'' None False hookedWorld
             = (fst (hookedLoader demoHost (Suc 0) ''real'' None False hookedWorld), ?w1)"
    by simp
  have i: "hookedLoader demoHost (Suc 0) ''real'' None False ?w1
             = (fst (hookedLoader demoHost (Suc 0) ''real'' None False ?w1),
                snd (hookedLoader demoHost (Suc 0) ''real'' None False ?w1))"
    by simp
  have l: "loaderCalls hookedWorld = []"
    by (simp add: hookedWorld_def)
  from substitute_delegates_every_load [OF a b c e f g i] a b c e l
  show ?thesis by simp
qed

text \<open>
  Claim C2 as it is written says that the second load does not invoke the original loader
  again. Here the first load has stored its result in the entry, and the second load of the
  same request still runs the external loader: the log holds two calls.
\<close>

theorem substitute_reinvokes_counterexample:
  "fst (hookedLoader demoHost (Suc 0) ''real'' None False hookedWorld) = Inr (JObject 102)
   \<and> map_of (registeredSubstitutes
               (snd (hookedLoader demoHost (Suc 0) ''real'' None False hookedWorld)))
         ''/app/real''
       = Some \<lparr>subst_name = Some ''fake'', subst_parent = Some testModule,
               subst_module = Some (JObject 102)\<rparr>
   \<and> loaderCalls (snd (hookedLoader demoHost (Suc 0) ''real'' None False hookedWorld))
       = [(0, ''fake'', Some testModule, False)]
   \<and> loaderCalls
       (snd (hookedLoader demoHost (Suc 0) ''real'' None False
               (snd (hookedLoader demoHost (Suc 0) ''real'' None False hookedWorld))))
       = [(0, ''fake'', Some testModule, False), (0, ''fake'', Some testModule, False)]"
  by (simp add: hookedLoader_def hookedLoaderBody_def runExternal_def demoHost_def
        hookedWorld_def)

text \<open>
  Claim C3, as the code has it. While the loader is hooked, a request whose resolved key
  has no mock and has a
  substitute entry with the target \<^verbatim>\<open>null\<close> throws the error made by
  \<^verbatim>\<open>createModuleNotFoundError\<close> from the request string as it was given: the message
  quotes that string and the code is \<^verbatim>\<open>MODULE_NOT_FOUND\<close>. The state after the throw
  is the state before the load, and the original loader is not run.
\<close>

theorem null_substitute_not_found:
  assumes "originalLoader w \<noteq> None"
    and "resolveFilename h request requester = Inr path"
    and "map_of (registeredMocks w) path = None"
    and "map_of (registeredSubstitutes w) path = Some sub"
    and "subst_name sub = None"
  shows "hookedLoader h d request requester isMain w
           = (Inl (JsError (''Cannot find module '' @ [CHR 0x27] @ request @ [CHR 0x27])
                           (Some ''MODULE_NOT_FOUND'')), w)
       \<and> hookedLoaderBody h call request requester isMain w
           = (Inl (createModuleNotFoundError request), w)"
  using assms
  by (auto simp: hookedLoaderBody_def hookedLoader_def createModuleNotFoundError_def)

theorem null_substitute_not_found_witness:
  "originalLoader hookedWorld \<noteq> None
   \<and> resolveFilename demoHost ''gone'' None = Inr ''/app/gone''
   \<and> map_of (registeredMocks hookedWorld) ''/app/gone'' = None
   \<and> map_of (registeredSubstitutes hookedWorld) ''/app/gone''
       = Some \<lparr>subst_name = None, subst_parent = Some testModule, subst_module = None\<rparr>
   \<and> hookedLoader demoHost 1 ''gone'' None False hookedWorld
       = (Inl (JsError (''Cannot find module '' @ [CHR 0x27] @ ''gone'' @ [CHR 0x27])
                       (Some ''MODULE_NOT_FOUND'')), hookedWorld)"
proof -
  have a: "originalLoader hookedWorld \<noteq> None"
    by (simp add: hookedWorld_def)
  have b: "resolveFilename demoHost ''gone'' None = Inr ''/app/gone''"
    by (simp add: demoHost_def)
  have c: "map_of (registeredMocks hookedWorld) ''/app/gone'' = None"
    by (simp add: hookedWorld_def)
  have e: "map_of (registeredSubstitutes hookedWorld) ''/app/gone''
             = Some \<lparr>subst_name = None, subst_parent = Some testModule, subst_module = None\<rparr>"
    by (simp add: hookedWorld_def)
  from null_substitute_not_found [OF a b c e, of 1 False undefined] a b c e
  show ?thesis by simp
qed

text \<open>
  Claim C3 as it is written speaks of every module registered with the substitute
  \<^verbatim>\<open>null\<close>. The mocks are looked up first: with \<^verbatim>\<open>registerSubstitute(gone, null)\<close>,
  \<^verbatim>\<open>registerMock(gone, mock)\<close> and \<^verbatim>\<open>enable()\<close>, the entry with the target
  \<^verbatim>\<open>null\<close> is in the registry and a load of \<^verbatim>\<open>gone\<close> returns the mock; nothing is
  thrown.
\<close>

theorem mock_before_null_substitute_counterexample:
  "originalLoader
     (run demoHost (Suc 0)
        [RegisterSubstitute testModule ''gone'' JNull,
         RegisterMock testModule ''gone'' (JObject 9),
         Enable testModule None] freshWorld) = Some (External 0)
   \<and> map_of (registeredSubstitutes
        (run demoHost (Suc 0)
           [RegisterSubstitute testModule ''gone'' JNull,
            RegisterMock testModule ''gone'' (JObject 9),
            Enable testModule None] freshWorld)) ''/app/gone''
       = Some \<lparr>subst_name = None, subst_parent = Some testModule, subst_module = None\<rparr>
   \<and> fst (hookedLoader demoHost (Suc 0) ''gone'' None False
        (run demoHost (Suc 0)
           [RegisterSubstitute testModule ''gone'' JNull,
            RegisterMock testModule ''gone'' (JObject 9),
            Enable testModule None] freshWorld)) = Inr (JObject 9)"
  by (simp add: run_def freshWorld_def initialWorld_def blank_def registerSubstitute_def
        registerMock_def enable_def getEffectiveOptions_def copyKeys_def defaultOptions_def
        demoHost_def optionFlag_def has_def Let_def warn_def hookedLoader_def
        hookedLoaderBody_def)

section \<open>Installing the hook\<close>

text \<open>
  Claim C4. A second \<^verbatim>\<open>enable\<close>, through any instance and with any options, changes
  nothing: the state after both calls is the state after the first. After the first call
  the loader is hooked; when it was not hooked before, the options in force are the
  effective options of the first call, the saved loader is the load function found by the
  first call, and the saved cache is the cache found by the first call if that call asked
  for a clean cache.
\<close>

theorem enable_twice:
  "enable inst2 opts2 (enable inst1 opts1 w) = enable inst1 opts1 w
   \<and> originalLoader (enable inst1 opts1 w) \<noteq> None
   \<and> (originalLoader w = None \<longrightarrow>
        options (enable inst2 opts2 (enable inst1 opts1 w)) = getEffectiveOptions opts1
        \<and> originalLoader (enable inst2 opts2 (enable inst1 opts1 w)) = Some (m_load w)
        \<and> originalCache (enable inst2 opts2 (enable inst1 opts1 w))
            = (if optionFlag (getEffectiveOptions opts1) ''useCleanCache''
               then Some (m_cache w) else originalCache w))"
  by (cases "originalLoader w") (auto simp: enable_def Let_def)

theorem enable_twice_witness:
  "originalLoader freshWorld = None
   \<and> enable otherModule (Some [(''warnOnReplace'', JBool False)])
        (enable testModule (Some [(''useCleanCache'', JBool True)]) freshWorld)
       = enable testModule (Some [(''useCleanCache'', JBool True)]) freshWorld
   \<and> options (enable otherModule (Some [(''warnOnReplace'', JBool False)])
                (enable testModule (Some [(''useCleanCache'', JBool True)]) freshWorld))
       = getEffectiveOptions (Some [(''useCleanCache'', JBool True)])
   \<and> originalLoader (enable otherModule (Some [(''warnOnReplace'', JBool False)])
                (enable testModule (Some [(''useCleanCache'', JBool True)]) freshWorld))
       = Some (External 0)"
proof -
  have a: "originalLoader freshWorld = None"
    by (simp add: freshWorld_def initialWorld_def)
  have b: "m_load freshWorld = External 0"
    by (simp add: freshWorld_def initialWorld_def)
  from enable_twice [of otherModule "Some [(''warnOnReplace'', JBool False)]" testModule
      "Some [(''useCleanCache'', JBool True)]" freshWorld] a b
  show ?thesis by auto
qed

section \<open>Registration\<close>

text \<open>
  Claim C5. \<^verbatim>\<open>registerSubstitute\<close> with a second argument that is neither a string nor
  \<^verbatim>\<open>null\<close> throws the usage error and leaves the whole state as it was, whatever the
  host's resolver would have answered (it is not asked). With a string or \<^verbatim>\<open>null\<close>, and
  a module reference that resolves to \<open>path\<close>, the call returns normally and the entry under
  \<open>path\<close> holds that target, the instance's parent module and no loaded module; the other
  entries are as before.
\<close>

theorem registerSubstitute_type_check:
  "((\<forall>s. sub \<noteq> JStr s) \<and> sub \<noteq> JNull \<longrightarrow>
      registerSubstitute h inst modname sub w
        = (Inl (JsError ''Substitute must be a string or null'' None), w))
   \<and> (((\<exists>s. sub = JStr s) \<or> sub = JNull) \<and> resolveFilename h modname (Some inst) = Inr path \<longrightarrow>
        fst (registerSubstitute h inst modname sub w) = Inr ()
        \<and> map_of (registeredSubstitutes (snd (registerSubstitute h inst modname sub w))) path
            = Some \<lparr>subst_name = (case sub of JStr s \<Rightarrow> Some s | other \<Rightarrow> None),
                    subst_parent = Some inst, subst_module = None\<rparr>
        \<and> (\<forall>k. k \<noteq> path \<longrightarrow>
              map_of (registeredSubstitutes (snd (registerSubstitute h inst modname sub w))) k
                = map_of (registeredSubstitutes w) k))"
proof (intro conjI impI)
  assume "(\<forall>s. sub \<noteq> JStr s) \<and> sub \<noteq> JNull"
  then have "typeof sub \<noteq> ''string'' \<and> sub \<noteq> JNull"
    by (cases sub) simp_all
  then show "registerSubstitute h inst modname sub w
        = (Inl (JsError ''Substitute must be a string or null'' None), w)"
    by (simp add: registerSubstitute_def)
next
  assume a: "((\<exists>s. sub = JStr s) \<or> sub = JNull) \<and> resolveFilename h modname (Some inst) = Inr path"
  then have ok: "(typeof sub \<noteq> ''string'' \<and> sub \<noteq> JNull) = False"
    by auto
  from a have r: "resolveFilename h modname (Some inst) = Inr path"
    by simp
  have n: "nameOf sub = (case sub of JStr s \<Rightarrow> Some s | other \<Rightarrow> None)"
    by (cases sub) simp_all
  show "fst (registerSubstitute h inst modname sub w) = Inr ()"
    by (simp add: registerSubstitute_def Let_def ok r)
  show "map_of (registeredSubstitutes (snd (registerSubstitute h inst modname sub w))) path
            = Some \<lparr>subst_name = (case sub of JStr s \<Rightarrow> Some s | other \<Rightarrow> None),
                    subst_parent = Some inst, subst_module = None\<rparr>"
    by (simp add: registerSubstitute_def Let_def update_conv' warn_def ok r n)
  show "\<forall>k. k \<noteq> path \<longrightarrow>
              map_of (registeredSubstitutes (snd (registerSubstitute h inst modname sub w))) k
                = map_of (registeredSubstitutes w) k"
    by (simp add: registerSubstitute_def Let_def update_conv' warn_def ok r n)
qed

theorem registerSubstitute_type_check_witness:
  "registerSubstitute demoHost testModule ''missing'' (JNum 3) freshWorld
     = (Inl (JsError ''Substitute must be a string or null'' None), freshWorld)
   \<and> resolveFilename demoHost ''real'' (Some testModule) = Inr ''/app/real''
   \<and> fst (registerSubstitute demoHost testModule ''real'' (JStr ''fake'') freshWorld) = Inr ()
   \<and> map_of (registeredSubstitutes
               (snd (registerSubstitute demoHost testModule ''real'' (JStr ''fake'') freshWorld)))
         ''/app/real''
       = Some \<lparr>subst_name = Some ''fake'', subst_parent = Some testModule,
               subst_module = None\<rparr>"
proof -
  have r: "resolveFilename demoHost ''real'' (Some testModule) = Inr ''/app/real''"
    by (simp add: demoHost_def)
  from registerSubstitute_type_check
         [where sub = "JNum 3" and h = demoHost and inst = testModule
            and modname = "''missing''" and w = freshWorld]
  have bad: "registerSubstitute demoHost testModule ''missing'' (JNum 3) freshWorld
     = (Inl (JsError ''Substitute must be a string or null'' None), freshWorld)"
    by simp
  from registerSubstitute_type_check
         [where sub = "JStr ''fake''" and h = demoHost and inst = testModule
            and modname = "''real''" and w = freshWorld and path = "''/app/real''"] r
  have good: "fst (registerSubstitute demoHost testModule ''real'' (JStr ''fake'') freshWorld)
       = Inr ()
   \<and> map_of (registeredSubstitutes
               (snd (registerSubstitute demoHost testModule ''real'' (JStr ''fake'') freshWorld)))
         ''/app/real''
       = Some \<lparr>subst_name = Some ''fake'', subst_parent = Some testModule,
               subst_module = None\<rparr>"
    by simp
  from bad good r show ?thesis by simp
qed

text \<open>
  Claim C6. For a module reference that resolves to \<open>path\<close>: when \<^verbatim>\<open>unhook\<close> is truthy
  and \<open>path\<close> ends in \<^verbatim>\<open>.node\<close>, \<^verbatim>\<open>registerAllowable\<close> throws the usage error and the
  state, with every allowable entry, is as before; when \<^verbatim>\<open>unhook\<close> is falsy or \<open>path\<close>
  is not a native identifier, the call returns normally and the entry under \<open>path\<close> is
  new: the flag is \<^verbatim>\<open>!!unhook\<close> and the list of observed paths is empty. Nothing else
  changes.
\<close>

theorem registerAllowable_native_unhook:
  assumes "resolveFilename h modname (Some inst) = Inr path"
  shows "(truthy unhook \<and> matchNativeModuleId path \<longrightarrow>
            registerAllowable h inst modname unhook w
              = (Inl (JsError ''Cannot unhook native modules'' None), w))
       \<and> (\<not> truthy unhook \<or> \<not> matchNativeModuleId path \<longrightarrow>
            registerAllowable h inst modname unhook w
              = (Inr (), w\<lparr>registeredAllowables :=
                             AList.update path \<lparr>allow_unhook = truthy unhook, allow_paths = []\<rparr>
                               (registeredAllowables w)\<rparr>)
            \<and> map_of (registeredAllowables (snd (registerAllowable h inst modname unhook w))) path
                = Some \<lparr>allow_unhook = truthy unhook, allow_paths = []\<rparr>
            \<and> (\<forall>k. k \<noteq> path \<longrightarrow>
                  map_of (registeredAllowables (snd (registerAllowable h inst modname unhook w))) k
                    = map_of (registeredAllowables w) k))"
  using assms by (auto simp: registerAllowable_def update_conv')

theorem registerAllowable_native_unhook_witness:
  "resolveFilename demoHost ''addon.node'' (Some testModule) = Inr ''/app/addon.node''
   \<and> matchNativeModuleId ''/app/addon.node''
   \<and> registerAllowable demoHost testModule ''addon.node'' (JBool True) hookedWorld
       = (Inl (JsError ''Cannot unhook native modules'' None), hookedWorld)
   \<and> map_of (registeredAllowables
               (snd (registerAllowable demoHost testModule ''addon.node'' (JBool False)
                       hookedWorld)))
         ''/app/addon.node''
       = Some \<lparr>allow_unhook = False, allow_paths = []\<rparr>"
proof -
  have r: "resolveFilename demoHost ''addon.node'' (Some testModule) = Inr ''/app/addon.node''"
    by (simp add: demoHost_def)
  have n: "matchNativeModuleId ''/app/addon.node''"
    by (simp add: matchNativeModuleId_def)
  from registerAllowable_native_unhook [OF r, of "JBool True" hookedWorld] n
  have bad: "registerAllowable demoHost testModule ''addon.node'' (JBool True) hookedWorld
       = (Inl (JsError ''Cannot unhook native modules'' None), hookedWorld)"
    by simp
  from registerAllowable_native_unhook [OF r, of "JBool False" hookedWorld]
  have good: "map_of (registeredAllowables
               (snd (registerAllowable demoHost testModule ''addon.node'' (JBool False)
                       hookedWorld)))
         ''/app/addon.node''
       = Some \<lparr>allow_unhook = False, allow_paths = []\<rparr>"
    by (simp add: update_conv')
  from r n bad good show ?thesis by simp
qed

text \<open>
  Claim C7. For a module reference that resolves to \<open>path\<close>: when the allowable entry
  under \<open>path\<close> has its unhook flag set, \<^verbatim>\<open>deregisterAllowable\<close> deletes every key of the
  entry's observed paths from the live module cache, keeps every other key of the cache,
  and removes the entry; when the flag is not set it removes the entry and the cache is
  the same; when there is no entry the state is the same. In every case no entry is left
  under \<open>path\<close> and the other allowable entries are as before.
\<close>

theorem deregisterAllowable_evicts:
  assumes "resolveFilename h modname (Some inst) = Inr path"
  shows "(\<forall>allow. map_of (registeredAllowables w) path = Some allow \<and> allow_unhook allow \<longrightarrow>
            deregisterAllowable h inst modname w
              = (Inr (), w\<lparr>m_cache := fold AList.delete (allow_paths allow) (m_cache w),
                           registeredAllowables := AList.delete path (registeredAllowables w)\<rparr>)
            \<and> (\<forall>k. map_of (m_cache (snd (deregisterAllowable h inst modname w))) k
                    = (if k \<in> set (allow_paths allow) then None else map_of (m_cache w) k)))
       \<and> (\<forall>allow. map_of (registeredAllowables w) path = Some allow \<and> \<not> allow_unhook allow \<longrightarrow>
            deregisterAllowable h inst modname w
              = (Inr (), w\<lparr>registeredAllowables := AList.delete path (registeredAllowables w)\<rparr>)
            \<and> m_cache (snd (deregisterAllowable h inst modname w)) = m_cache w)
       \<and> (map_of (registeredAllowables w) path = None \<longrightarrow>
            deregisterAllowable h inst modname w = (Inr (), w))
       \<and> map_of (registeredAllowables (snd (deregisterAllowable h inst modname w))) path = None
       \<and> (\<forall>k. k \<noteq> path \<longrightarrow>
             map_of (registeredAllowables (snd (deregisterAllowable h inst modname w))) k
               = map_of (registeredAllowables w) k)"
  using assms
  by (auto simp: deregisterAllowable_def evict_def map_of_fold_delete delete_conv'
           split: option.splits)

theorem deregisterAllowable_evicts_witness:
  "resolveFilename demoHost ''util'' (Some testModule) = Inr ''/app/util''
   \<and> map_of (registeredAllowables hookedWorld) ''/app/util''
       = Some \<lparr>allow_unhook = True, allow_paths = [''/app/util'']\<rparr>
   \<and> map_of (m_cache hookedWorld) ''/app/util'' = Some (JObject 5)
   \<and> map_of (m_cache (snd (deregisterAllowable demoHost testModule ''util'' hookedWorld)))
         ''/app/util'' = None
   \<and> map_of (m_cache (snd (deregisterAllowable demoHost testModule ''util'' hookedWorld)))
         ''/app/test.js'' = Some (JObject 0)
   \<and> map_of (registeredAllowables
               (snd (deregisterAllowable demoHost testModule ''util'' hookedWorld)))
         ''/app/util'' = None
   \<and> m_cache (snd (deregisterAllowable demoHost testModule ''plain'' hookedWorld))
       = m_cache hookedWorld
   \<and> deregisterAllowable demoHost testModule ''nothing'' hookedWorld = (Inr (), hookedWorld)"
proof -
  have r1: "resolveFilename demoHost ''util'' (Some testModule) = Inr ''/app/util''"
    by (simp add: demoHost_def)
  have r2: "resolveFilename demoHost ''plain'' (Some testModule) = Inr ''/app/plain''"
    by (simp add: demoHost_def)
  have r3: "resolveFilename demoHost ''nothing'' (Some testModule) = Inr ''/app/nothing''"
    by (simp add: demoHost_def)
  have a1: "map_of (registeredAllowables hookedWorld) ''/app/util''
       = Some \<lparr>allow_unhook = True, allow_paths = [''/app/util'']\<rparr>"
    by (simp add: hookedWorld_def)
  have a2: "map_of (registeredAllowables hookedWorld) ''/app/plain''
       = Some \<lparr>allow_unhook = False, allow_paths = []\<rparr>"
    by (simp add: hookedWorld_def)
  have a3: "map_of (registeredAllowables hookedWorld) ''/app/nothing'' = None"
    by (simp add: hookedWorld_def)
  have c: "map_of (m_cache hookedWorld) ''/app/util'' = Some (JObject 5)
           \<and> map_of (m_cache hookedWorld) ''/app/test.js'' = Some (JObject 0)"
    by (simp add: hookedWorld_def)
  from deregisterAllowable_evicts [OF r1, of hookedWorld] a1 c
  have e1: "map_of (m_cache (snd (deregisterAllowable demoHost testModule ''util'' hookedWorld)))
         ''/app/util'' = None
   \<and> map_of (m_cache (snd (deregisterAllowable demoHost testModule ''util'' hookedWorld)))
         ''/app/test.js'' = Some (JObject 0)
   \<and> map_of (registeredAllowables
               (snd (deregisterAllowable demoHost testModule ''util'' hookedWorld)))
         ''/app/util'' = None"
    by (simp add: delete_conv')
  from deregisterAllowable_evicts [OF r2, of hookedWorld] a2
  have e2: "m_cache (snd (deregisterAllowable demoHost testModule ''plain'' hookedWorld))
       = m_cache hookedWorld"
    by simp
  from deregisterAllowable_evicts [OF r3, of hookedWorld] a3
  have e3: "deregisterAllowable demoHost testModule ''nothing'' hookedWorld
       = (Inr (), hookedWorld)"
    by simp
  from r1 a1 c e1 e2 e3 show ?thesis by simp
qed

text \<open>
  The scenario behind C7: an allowable registered with \<^verbatim>\<open>unhook\<close> set, for a key with
  a path separator in it, is recorded when it is loaded, and is out of the cache after
  \<^verbatim>\<open>deregisterAllowable\<close>.
\<close>

lemma unhook_scenario:
  assumes hooked: "originalLoader w = Some (External k)"
    and res: "resolveFilename h modname (Some inst) = Inr path"
    and req: "resolveFilename h request requester = Inr path"
    and nomock: "map_of (registeredMocks w) path = None"
    and nosub: "map_of (registeredSubstitutes w) path = None"
    and slash: "CHR ''/'' \<in> set path"
    and nonnative: "\<not> matchNativeModuleId path"
    and flag: "truthy unhook"
  shows "map_of (m_cache (snd (deregisterAllowable h inst modname
           (snd (hookedLoader h (Suc d) request requester isMain
              (snd (registerAllowable h inst modname unhook w))))))) path = None"
proof -
  define w1 where "w1 = snd (registerAllowable h inst modname unhook w)"
  have w1: "w1 = w\<lparr>registeredAllowables :=
                     AList.update path \<lparr>allow_unhook = True, allow_paths = []\<rparr>
                       (registeredAllowables w)\<rparr>"
    using res nonnative flag by (simp add: w1_def registerAllowable_def)
  define w2 where "w2 = snd (hookedLoader h (Suc d) request requester isMain w1)"
  have a2: "map_of (registeredAllowables w2) path
              = Some \<lparr>allow_unhook = True, allow_paths = [path]\<rparr>"
    using hooked req nomock nosub slash
    by (simp add: w2_def w1 hookedLoader_def hookedLoaderBody_def runExternal_def
          update_conv' Let_def split: prod.splits)
  show ?thesis
    unfolding w1_def [symmetric] w2_def [symmetric]
    using res a2
    by (simp add: deregisterAllowable_def Let_def m_cache_evict)
qed

section \<open>The clean cache\<close>

text \<open>
  Claim C8. From an unhooked state, \<^verbatim>\<open>enable\<close> with the clean cache asked for, then any
  calls other than \<^verbatim>\<open>enable\<close> and \<^verbatim>\<open>disable\<close> (loads, registrations, resets), then
  \<^verbatim>\<open>disable\<close>: the call returns normally and the module cache is the one from before
  \<^verbatim>\<open>enable\<close> with the native entries of the live cache written over it. A key that
  does not end in \<^verbatim>\<open>.node\<close> holds what it held before \<^verbatim>\<open>enable\<close>, whatever was
  loaded under it in between; a native key present in the live cache holds the live value.
  When the live native entries are entries of the old cache, the cache is the old cache
  itself. The load function is the one found by \<^verbatim>\<open>enable\<close>, and nothing is saved any
  more.
\<close>

theorem clean_cache_round_trip:
  assumes unhooked: "originalLoader w = None"
    and clean: "optionFlag (getEffectiveOptions opts) ''useCleanCache''"
    and between: "\<forall>c \<in> set calls. \<not> hookCall c"
    and live: "live = run h d calls (enable inst opts w)"
  shows "fst (disable live) = Inr ()
       \<and> (\<forall>k. map_of (m_cache (snd (disable live))) k
               = (if matchNativeModuleId k \<and> map_of (m_cache live) k \<noteq> None
                  then map_of (m_cache live) k else map_of (m_cache w) k))
       \<and> ((\<forall>k v. matchNativeModuleId k \<and> map_of (m_cache live) k = Some v
                    \<longrightarrow> map_of (m_cache w) k = Some v)
            \<longrightarrow> m_cache (snd (disable live)) = m_cache w)
       \<and> m_load (snd (disable live)) = m_load w
       \<and> originalLoader (snd (disable live)) = None
       \<and> originalCache (snd (disable live)) = None"
proof -
  have "hookKept (enable inst opts w) live"
    unfolding live using between by (rule run_hookKept)
  with enable_unhooked [OF unhooked, where inst = inst and opts = opts] clean
  have a: "originalLoader live = Some (m_load w)"
    and b: "optionFlag (options live) ''useCleanCache''"
    and c: "originalCache live = Some (m_cache w)"
    by (simp_all add: hookKept_def)
  note d = disable_clean [OF a b c]
  show ?thesis
    unfolding d by (simp add: map_of_copyNativeModules copyNativeModules_same)
qed

lemma roundTrip_live:
  "m_cache (run demoHost 2 roundTripCalls
              (enable testModule (Some [(''useCleanCache'', JBool True)]) freshWorld))
     = [(''/app/addon.node'', JObject 1), (''/app/util'', JObject 101),
        (''/app/new.node'', JObject 102)]"
  by (simp add: run_def roundTripCalls_def enable_def Let_def getEffectiveOptions_def
        copyKeys_def defaultOptions_def blank_def optionFlag_def freshWorld_def
        initialWorld_def demoCache_def copyNativeModules_def matchNativeModuleId_def
        registerAllowable_def registerMock_def moduleLoad_def numeral_2_eq_2
        hookedLoaderBody_def runExternal_def demoHost_def testModule_def has_def warn_def)

theorem clean_cache_round_trip_witness:
  "originalLoader freshWorld = None
   \<and> optionFlag (getEffectiveOptions (Some [(''useCleanCache'', JBool True)])) ''useCleanCache''
   \<and> filter hookCall roundTripCalls = []
   \<and> map_of (m_cache freshWorld) ''/app/util'' = None
   \<and> map_of (m_cache (run demoHost 2 roundTripCalls
        (enable testModule (Some [(''useCleanCache'', JBool True)]) freshWorld))) ''/app/util''
       = Some (JObject 101)
   \<and> map_of (m_cache (snd (disable (run demoHost 2 roundTripCalls
        (enable testModule (Some [(''useCleanCache'', JBool True)]) freshWorld))))) ''/app/util''
       = None
   \<and> map_of (m_cache (snd (disable (run demoHost 2 roundTripCalls
        (enable testModule (Some [(''useCleanCache'', JBool True)]) freshWorld))))) ''/app/test.js''
       = Some (JObject 0)
   \<and> map_of (m_cache (snd (disable (run demoHost 2 roundTripCalls
        (enable testModule (Some [(''useCleanCache'', JBool True)]) freshWorld))))) ''/app/new.node''
       = Some (JObject 102)
   \<and> m_load (snd (disable (run demoHost 2 roundTripCalls
        (enable testModule (Some [(''useCleanCache'', JBool True)]) freshWorld)))) = External 0"
proof -
  let ?opts = "Some [(''useCleanCache'', JBool True)]"
  let ?live = "run demoHost 2 roundTripCalls (enable testModule ?opts freshWorld)"
  have a: "originalLoader freshWorld = None"
    by (simp add: freshWorld_def initialWorld_def)
  have b: "optionFlag (getEffectiveOptions ?opts) ''useCleanCache''"
    by (simp add: getEffectiveOptions_def copyKeys_def defaultOptions_def blank_def
          optionFlag_def)
  have c: "\<forall>c \<in> set roundTripCalls. \<not> hookCall c"
    by (simp add: roundTripCalls_def)
  have e: "?live = ?live"
    by simp
  have f: "m_cache freshWorld = [(''/app/test.js'', JObject 0), (''/app/addon.node'', JObject 1)]"
    by (simp add: freshWorld_def initialWorld_def demoCache_def)
  have g: "m_load freshWorld = External 0"
    by (simp add: freshWorld_def initialWorld_def)
  have n: "\<not> matchNativeModuleId ''/app/util''" "\<not> matchNativeModuleId ''/app/test.js''"
    "matchNativeModuleId ''/app/new.node''"
    by (simp_all add: matchNativeModuleId_def)
  have c': "filter hookCall roundTripCalls = []"
    by (simp add: roundTripCalls_def)
  from clean_cache_round_trip [OF a b c e] a b c'
  show ?thesis
    by (simp add: roundTrip_live f g n)
qed

section \<open>Instances\<close>

text \<open>
  Claim C9. Take the instances \<open>A\<close> and \<open>B\<close> that \<^verbatim>\<open>init\<close> gives for two parent
  modules, the same or different, while the loader is not hooked. A mock registered through
  \<open>A\<close> is in the one registry every instance works on: after \<^verbatim>\<open>enable\<close> through \<open>B\<close>,
  a load of any request that resolves to the mock's key returns the mock; \<^verbatim>\<open>enable\<close>
  through \<open>A\<close> then finds the hook already installed and does nothing, and \<^verbatim>\<open>disable\<close>
  through \<open>A\<close> removes the hook that \<open>B\<close> installed; \<^verbatim>\<open>deregisterAll\<close> through \<open>B\<close>
  empties the registries, the mock of \<open>A\<close> included. Asking \<^verbatim>\<open>init\<close> again for either
  parent module gives the same instance.
\<close>

theorem facades_share_state:
  assumes unhooked: "originalLoader w = None"
    and initA: "init pa w = (A, w1)"
    and initB: "init pb w1 = (B, w2)"
    and res: "resolveFilename h modname (Some A) = Inr path"
    and reg: "api_registerMock (createInstance h A) modname V w2 = (r, w3)"
    and req: "resolveFilename h request requester = Inr path"
    and on: "w4 = api_enable (createInstance h B) opts w3"
  shows "r = Inr ()
       \<and> map_of (registeredMocks w3) path = Some V
       \<and> originalLoader w4 \<noteq> None
       \<and> hookedLoader h d request requester isMain w4 = (Inr V, w4)
       \<and> moduleLoad h (Suc d) request requester isMain w4 = (Inr V, w4)
       \<and> api_enable (createInstance h A) opts' w4 = w4
       \<and> originalLoader (snd (api_disable (createInstance h A) w4)) = None
       \<and> registeredMocks (api_deregisterAll (createInstance h B) w4) = []
       \<and> registeredSubstitutes (api_deregisterAll (createInstance h B) w4) = []
       \<and> registeredAllowables (api_deregisterAll (createInstance h B) w4) = []
       \<and> fst (init pa w2) = A \<and> fst (init pb w2) = B"
proof -
  have memo: "fst (init pa w2) = A \<and> fst (init pb w2) = B"
    using initA initB
    by (cases "mod_id pb = mod_id pa")
       (auto simp: init_def update_conv' split: option.splits)
  from init_registry [OF initA] init_registry [OF initB] unhooked
  have u2: "originalLoader w2 = None"
    by simp
  from reg res have r: "r = Inr ()"
    and m3: "map_of (registeredMocks w3) path = Some V"
    and u3: "originalLoader w3 = None"
    using u2
    by (auto simp: createInstance_def registerMock_def Let_def warn_def update_conv')
  from on u3 have h4: "originalLoader w4 = Some (m_load w3)"
    and l4: "m_load w4 = HookedLoader B"
    and m4: "registeredMocks w4 = registeredMocks w3"
    by (simp_all add: createInstance_def enable_def Let_def)
  from h4 req m3 m4
  have load: "hookedLoaderBody h call request requester isMain w4 = (Inr V, w4)" for call
    by (simp add: hookedLoaderBody_def)
  have again: "api_enable (createInstance h A) opts' w4 = w4"
    using h4 by (simp add: createInstance_def enable_def)
  from on u3 have wf4: "optionFlag (options w4) ''useCleanCache'' \<Longrightarrow> originalCache w4 \<noteq> None"
    by (simp add: createInstance_def enable_def Let_def split: if_splits)
  have off: "originalLoader (snd (api_disable (createInstance h A) w4)) = None"
    using h4 wf4 by (auto simp: createInstance_def disable_def split: option.splits)
  show ?thesis
    using r m3 h4 l4 load again off memo
    by (simp add: hookedLoader_def moduleLoad_def createInstance_def deregisterAll_def
          Let_def blank_def)
qed

theorem facades_share_state_witness:
  "originalLoader freshWorld = None
   \<and> fst (init testModule freshWorld) = testModule
   \<and> fst (init otherModule (snd (init testModule freshWorld))) = otherModule
   \<and> resolveFilename demoHost ''widgets'' (Some testModule) = Inr ''/app/widgets''
   \<and> resolveFilename demoHost ''widgets'' None = Inr ''/app/widgets''
   \<and> hookedLoader demoHost 0 ''widgets'' None False
        (api_enable (createInstance demoHost otherModule) None
           (snd (api_registerMock (createInstance demoHost testModule) ''widgets'' (JObject 7)
                   (snd (init otherModule (snd (init testModule freshWorld)))))))
       = (Inr (JObject 7),
          api_enable (createInstance demoHost otherModule) None
           (snd (api_registerMock (createInstance demoHost testModule) ''widgets'' (JObject 7)
                   (snd (init otherModule (snd (init testModule freshWorld)))))))
   \<and> registeredMocks
        (api_deregisterAll (createInstance demoHost otherModule)
          (api_enable (createInstance demoHost otherModule) None
           (snd (api_registerMock (createInstance demoHost testModule) ''widgets'' (JObject 7)
                   (snd (init otherModule (snd (init testModule freshWorld))))))))
       = []"
proof -
  let ?w1 = "snd (init testModule freshWorld)"
  let ?w2 = "snd (init otherModule ?w1)"
  let ?reg = "api_registerMock (createInstance demoHost testModule) ''widgets'' (JObject 7) ?w2"
  have a: "originalLoader freshWorld = None"
    by (simp add: freshWorld_def initialWorld_def)
  have b: "init testModule freshWorld = (testModule, ?w1)"
    by (simp add: init_def freshWorld_def initialWorld_def blank_def)
  have c: "init otherModule ?w1 = (otherModule, ?w2)"
    by (simp add: init_def freshWorld_def initialWorld_def blank_def testModule_def
          otherModule_def)
  have e: "resolveFilename demoHost ''widgets'' (Some testModule) = Inr ''/app/widgets''"
    by (simp add: demoHost_def)
  have f: "?reg = (fst ?reg, snd ?reg)"
    by simp
  have g: "resolveFilename demoHost ''widgets'' None = Inr ''/app/widgets''"
    by (simp add: demoHost_def)
  have i: "api_enable (createInstance demoHost otherModule) None (snd ?reg)
             = api_enable (createInstance demoHost otherModule) None (snd ?reg)"
    by simp
  note t = facades_share_state [OF a b c e f g i, of 0 False None]
  from t have x: "hookedLoader demoHost 0 ''widgets'' None False
        (api_enable (createInstance demoHost otherModule) None (snd ?reg))
       = (Inr (JObject 7), api_enable (createInstance demoHost otherModule) None (snd ?reg))"
    by blast
  from t have y: "registeredMocks
        (api_deregisterAll (createInstance demoHost otherModule)
          (api_enable (createInstance demoHost otherModule) None (snd ?reg))) = []"
    by blast
  from b have b': "fst (init testModule freshWorld) = testModule"
    by (metis fst_conv)
  from c have c': "fst (init otherModule ?w1) = otherModule"
    by (metis fst_conv)
  from a b' c' e g x y show ?thesis
    by blast
qed

section \<open>The options before \<^verbatim>\<open>enable\<close>\<close>

text \<open>
  Claim C10, as the code has it. Start from the state in which the file leaves its
  variables and make any calls that do not write the options (no \<^verbatim>\<open>enable\<close>,
  \<^verbatim>\<open>warnOnReplace\<close> or \<^verbatim>\<open>warnOnUnregistered\<close>). The options object is then empty,
  and \<^verbatim>\<open>registerMock\<close> and \<^verbatim>\<open>registerSubstitute\<close> print nothing, also on a key that
  is registered, although \<^verbatim>\<open>defaultOptions.warnOnReplace\<close> is \<^verbatim>\<open>true\<close>. The defaults
  come into force with \<^verbatim>\<open>enable\<close>: after \<^verbatim>\<open>enable(opts)\<close> every option is the
  caller's value where \<^verbatim>\<open>opts\<close> has the key and the default otherwise, and a
  registration on a registered key prints the replacement warning exactly when the
  effective \<^verbatim>\<open>warnOnReplace\<close> is truthy; after \<^verbatim>\<open>enable\<close> without options the options
  are the defaults and the warning is printed.
\<close>

theorem no_replace_warning_before_enable:
  assumes calls: "\<forall>c \<in> set calls. \<not> optionCall c"
    and w: "w = run h d calls (initialWorld l c0)"
  shows "options w = []
       \<and> console (snd (registerMock h inst modname mock w)) = console w
       \<and> console (snd (registerSubstitute h inst modname sub w)) = console w
       \<and> map_of defaultOptions ''warnOnReplace'' = Some (JBool True)
       \<and> options (enable inst' None w) = defaultOptions
       \<and> (resolveFilename h modname (Some inst) = Inr path \<and> has (registeredMocks w) path \<longrightarrow>
            console (snd (registerMock h inst modname mock (enable inst' None w)))
              = console w @ [''WARNING: Replacing existing mock for module: '' @ modname])
       \<and> (resolveFilename h modname (Some inst) = Inr path
            \<and> has (registeredSubstitutes w) path \<and> (sub = JNull \<or> typeof sub = ''string'') \<longrightarrow>
            console (snd (registerSubstitute h inst modname sub (enable inst' None w)))
              = console w @ [''WARNING: Replacing existing substitute for module: '' @ modname])
       \<and> options (enable inst' opts w) = getEffectiveOptions opts
       \<and> (\<forall>key. map_of (options (enable inst' opts w)) key =
             (case opts of
                None \<Rightarrow> map_of defaultOptions key
              | Some given \<Rightarrow>
                  (case map_of given key of
                     Some v \<Rightarrow> Some v
                   | None \<Rightarrow> map_of defaultOptions key)))
       \<and> (resolveFilename h modname (Some inst) = Inr path \<and> has (registeredMocks w) path \<longrightarrow>
            console (snd (registerMock h inst modname mock (enable inst' opts w)))
              = (if optionFlag (getEffectiveOptions opts) ''warnOnReplace''
                 then console w @ [''WARNING: Replacing existing mock for module: '' @ modname]
                 else console w))
       \<and> (resolveFilename h modname (Some inst) = Inr path
            \<and> has (registeredSubstitutes w) path \<and> (sub = JNull \<or> typeof sub = ''string'') \<longrightarrow>
            console (snd (registerSubstitute h inst modname sub (enable inst' opts w)))
              = (if optionFlag (getEffectiveOptions opts) ''warnOnReplace''
                 then console w
                        @ [''WARNING: Replacing existing substitute for module: '' @ modname]
                 else console w))"
proof -
  have "quiet (initialWorld l c0)"
    by (simp add: quiet_def initialWorld_def blank_def)
  then have "quiet w"
    unfolding w using calls by (rule quiet_run)
  then have o: "options w = []" and u: "originalLoader w = None"
    by (simp_all add: quiet_def)
  have f: "\<not> optionFlag (options w) ''warnOnReplace''"
    by (simp add: o optionFlag_def)
  have m: "console (snd (registerMock h inst modname mock w)) = console w"
    using f by (simp add: registerMock_def Let_def split: sum.splits)
  have s: "console (snd (registerSubstitute h inst modname sub w)) = console w"
    using f by (simp add: registerSubstitute_def Let_def split: sum.splits)
  have e: "options (enable inst' given w) = getEffectiveOptions given"
    "registeredMocks (enable inst' given w) = registeredMocks w"
    "registeredSubstitutes (enable inst' given w) = registeredSubstitutes w"
    "console (enable inst' given w) = console w" for given
    using u by (simp_all add: enable_def Let_def)
  have t: "optionFlag defaultOptions ''warnOnReplace''"
    by (simp add: defaultOptions_def optionFlag_def)
  have n: "options (enable inst' None w) = defaultOptions"
    by (simp add: e getEffectiveOptions_None)
  have g: "resolveFilename h modname (Some inst) = Inr path \<and> has (registeredMocks w) path \<longrightarrow>
            console (snd (registerMock h inst modname mock (enable inst' given w)))
              = (if optionFlag (getEffectiveOptions given) ''warnOnReplace''
                 then console w @ [''WARNING: Replacing existing mock for module: '' @ modname]
                 else console w)" for given
    by (simp add: registerMock_def Let_def e warn_def)
  have g': "resolveFilename h modname (Some inst) = Inr path
            \<and> has (registeredSubstitutes w) path \<and> (sub = JNull \<or> typeof sub = ''string'') \<longrightarrow>
            console (snd (registerSubstitute h inst modname sub (enable inst' given w)))
              = (if optionFlag (getEffectiveOptions given) ''warnOnReplace''
                 then console w
                        @ [''WARNING: Replacing existing substitute for module: '' @ modname]
                 else console w)" for given
    by (auto simp: registerSubstitute_def Let_def e warn_def)
  have k: "\<forall>key. map_of (options (enable inst' opts w)) key =
             (case opts of
                None \<Rightarrow> map_of defaultOptions key
              | Some given \<Rightarrow>
                  (case map_of given key of
                     Some v \<Rightarrow> Some v
                   | None \<Rightarrow> map_of defaultOptions key))"
    by (simp add: e map_of_getEffectiveOptions)
  have d: "map_of defaultOptions ''warnOnReplace'' = Some (JBool True)"
    by (simp add: defaultOptions_def)
  from g [of None] g' [of None] t
  have m': "resolveFilename h modname (Some inst) = Inr path \<and> has (registeredMocks w) path \<longrightarrow>
            console (snd (registerMock h inst modname mock (enable inst' None w)))
              = console w @ [''WARNING: Replacing existing mock for module: '' @ modname]"
    and s': "resolveFilename h modname (Some inst) = Inr path
            \<and> has (registeredSubstitutes w) path \<and> (sub = JNull \<or> typeof sub = ''string'') \<longrightarrow>
            console (snd (registerSubstitute h inst modname sub (enable inst' None w)))
              = console w @ [''WARNING: Replacing existing substitute for module: '' @ modname]"
    by (simp_all add: getEffectiveOptions_None)
  show ?thesis
    by (intro conjI o m s d n m' s' e(1) k g g')
qed

theorem no_replace_warning_before_enable_witness:
  "filter optionCall preEnableCalls = []
   \<and> resolveFilename demoHost ''widgets'' (Some otherModule) = Inr ''/app/widgets''
   \<and> has (registeredMocks (run demoHost (Suc 0) preEnableCalls freshWorld)) ''/app/widgets''
   \<and> options (run demoHost (Suc 0) preEnableCalls freshWorld) = []
   \<and> console (snd (registerMock demoHost otherModule ''widgets'' (JObject 8)
                     (run demoHost (Suc 0) preEnableCalls freshWorld)))
       = console (run demoHost (Suc 0) preEnableCalls freshWorld)
   \<and> console (snd (registerMock demoHost otherModule ''widgets'' (JObject 8)
                     (enable testModule None (run demoHost (Suc 0) preEnableCalls freshWorld))))
       = console (run demoHost (Suc 0) preEnableCalls freshWorld)
           @ [''WARNING: Replacing existing mock for module: widgets'']
   \<and> console (snd (registerMock demoHost otherModule ''widgets'' (JObject 8)
                     (enable testModule (Some [(''warnOnReplace'', JBool False)])
                        (run demoHost (Suc 0) preEnableCalls freshWorld))))
       = console (run demoHost (Suc 0) preEnableCalls freshWorld)
   \<and> map_of (options (enable testModule (Some [(''warnOnReplace'', JBool False)])
                        (run demoHost (Suc 0) preEnableCalls freshWorld))) ''useCleanCache''
       = Some (JBool False)"
proof -
  let ?w = "run demoHost (Suc 0) preEnableCalls freshWorld"
  have a: "\<forall>c \<in> set preEnableCalls. \<not> optionCall c"
    by (simp add: preEnableCalls_def)
  have a': "filter optionCall preEnableCalls = []"
    by (simp add: preEnableCalls_def)
  have b: "?w = run demoHost (Suc 0) preEnableCalls (initialWorld (External 0) demoCache)"
    by (simp add: freshWorld_def)
  have r: "resolveFilename demoHost ''widgets'' (Some otherModule) = Inr ''/app/widgets''"
    by (simp add: demoHost_def)
  have m: "registeredMocks ?w = [(''/app/widgets'', JObject 7)]"
    by (simp add: run_def preEnableCalls_def freshWorld_def initialWorld_def blank_def
          registerMock_def registerSubstitute_def moduleLoad_def disable_def demoHost_def
          optionFlag_def has_def Let_def runExternal_def demoCache_def)
  have k: "has (registeredMocks ?w) ''/app/widgets''"
    by (simp add: m has_def)
  have f: "\<not> optionFlag (getEffectiveOptions (Some [(''warnOnReplace'', JBool False)]))
               ''warnOnReplace''"
    by (simp add: optionFlag_def map_of_getEffectiveOptions)
  have g: "map_of defaultOptions ''useCleanCache'' = Some (JBool False)"
    by (simp add: defaultOptions_def)
  note t = no_replace_warning_before_enable
         [OF a b, where inst = otherModule and modname = "''widgets''" and mock = "JObject 8"
            and path = "''/app/widgets''" and inst' = testModule and sub = JNull
            and opts = "Some [(''warnOnReplace'', JBool False)]"]
  from t have x1: "options ?w = []"
    by blast
  from t have x2: "console (snd (registerMock demoHost otherModule ''widgets'' (JObject 8) ?w))
                     = console ?w"
    by blast
  from t r k
  have x3: "console (snd (registerMock demoHost otherModule ''widgets'' (JObject 8)
                            (enable testModule None ?w)))
              = console ?w @ [''WARNING: Replacing existing mock for module: widgets'']"
    by simp
  from t r k f
  have x4: "console (snd (registerMock demoHost otherModule ''widgets'' (JObject 8)
                            (enable testModule (Some [(''warnOnReplace'', JBool False)]) ?w)))
              = console ?w"
    by simp
  from t have "map_of (options (enable testModule (Some [(''warnOnReplace'', JBool False)]) ?w))
                 ''useCleanCache''
      = (case Some [(''warnOnReplace'', JBool False)] of
           None \<Rightarrow> map_of defaultOptions ''useCleanCache''
         | Some given \<Rightarrow>
             (case map_of given ''useCleanCache'' of
                Some v \<Rightarrow> Some v
              | None \<Rightarrow> map_of defaultOptions ''useCleanCache''))"
    by blast
  then have x5: "map_of (options (enable testModule (Some [(''warnOnReplace'', JBool False)]) ?w))
                   ''useCleanCache'' = Some (JBool False)"
    by (simp add: g)
  from a' r k x1 x2 x3 x4 x5 show ?thesis
    by blast
qed

text \<open>
  Claim C10 as it is written speaks of every moment before the first \<^verbatim>\<open>enable\<close>. The
  two setters write the live options whether or not \<^verbatim>\<open>enable\<close> has been called: after
  \<^verbatim>\<open>warnOnReplace(true)\<close> in the initial state the options object is not empty, and
  with the loader still unhooked a second registration of the same key prints the warning.
\<close>

theorem setter_before_enable_counterexample:
  "options (run demoHost (Suc 0) [WarnOnReplace (JBool True)] freshWorld)
     = [(''warnOnReplace'', JBool True)]
   \<and> originalLoader
        (run demoHost (Suc 0)
           [WarnOnReplace (JBool True),
            RegisterMock testModule ''widgets'' (JObject 7)] freshWorld) = None
   \<and> console
        (run demoHost (Suc 0)
           [WarnOnReplace (JBool True),
            RegisterMock testModule ''widgets'' (JObject 7)] freshWorld) = []
   \<and> console
        (snd (registerMock demoHost testModule ''widgets'' (JObject 8)
           (run demoHost (Suc 0)
              [WarnOnReplace (JBool True),
               RegisterMock testModule ''widgets'' (JObject 7)] freshWorld)))
       = [''WARNING: Replacing existing mock for module: widgets'']"
  by (simp add: run_def freshWorld_def initialWorld_def blank_def warnOnReplace_def
        registerMock_def demoHost_def optionFlag_def has_def Let_def warn_def)

end
